theory Spec2Isabelle
  imports Main
begin

text \<open>
  A model of \<open>server.js\<close>, the order-intake server: the handlers of
  \<open>POST /api/create-checkout\<close>, \<open>POST /api/webhook\<close> and
  \<open>PATCH /api/admin/orders/:orderId\<close> with the three mail senders they call, each as
  a function from the request and the server state to the new state and the reply, and
  the two body parsers that stand in front of the webhook handler. The payment
  processor's client, the JSON reader, the mail transporter, the clock and the
  identifier generator are parameters. The upload route and the two \<open>GET\<close> routes are
  left out.
\<close>

section \<open>JavaScript values\<close>

text \<open>
  The values that reach the handlers of \<open>server.js\<close>: what a JSON request body or a
  processor event holds, plus \<open>NaN\<close> (the result of a failed \<open>parseInt\<close>) and the
  members every object literal inherits from \<open>Object.prototype\<close>.
  \<open>JNum n\<close> is the integral Number \<open>n\<close>; the model is exact for safe integers
  (\<open>\<bar>n\<bar> \<le> 2^53 - 1\<close>), and statements about numbers are made in that range.
  Non-integral numbers, nested objects and arrays are not represented. Strings are
  sequences of \<open>char\<close>.
\<close>

datatype jsval =
    JUndefined
  | JNull
  | JBool bool
  | JNum int
  | JNaN
  | JStr string
  | JInherited string

definition maxSafe :: int where
  "maxSafe = 2 ^ 53 - 1"

fun truthy :: "jsval \<Rightarrow> bool" where
  "truthy JUndefined = False"
| "truthy JNull = False"
| "truthy (JBool b) = b"
| "truthy (JNum n) = (n \<noteq> 0)"
| "truthy JNaN = False"
| "truthy (JStr s) = (s \<noteq> [])"
| "truthy (JInherited k) = True"

text \<open>The operator \<open>a || b\<close>.\<close>

definition jsOr :: "jsval \<Rightarrow> jsval \<Rightarrow> jsval" where
  "jsOr a b = (if truthy a then a else b)"

subsection \<open>Number to string and back\<close>

definition digitChar :: "nat \<Rightarrow> char" where
  "digitChar d = ''0123456789'' ! d"

fun decimalNat :: "nat \<Rightarrow> string" where
  "decimalNat n = (if n < 10 then [digitChar n] else decimalNat (n div 10) @ [digitChar (n mod 10)])"

declare decimalNat.simps [simp del]

text \<open>\<open>Number.prototype.toString\<close> on an integral Number below \<open>10^21\<close>.\<close>

definition decimal :: "int \<Rightarrow> string" where
  "decimal n = (if n < 0 then CHR ''-'' # decimalNat (nat (- n)) else decimalNat (nat n))"

text \<open>
  The name of an inherited member as a function (\<open>f.name\<close>) and its source text
  (what string conversion of the function yields). \<open>__proto__\<close> is the prototype
  object itself, not a function.
\<close>

definition memberName :: "string \<Rightarrow> jsval" where
  "memberName k =
     (if k = ''__proto__'' then JUndefined
      else if k = ''constructor'' then JStr ''Object''
      else JStr k)"

definition memberText :: "string \<Rightarrow> string" where
  "memberText k =
     (if k = ''__proto__'' then ''[object Object]''
      else ''function '' @ (if k = ''constructor'' then ''Object'' else k) @ ''() { [native code] }'')"

text \<open>String conversion, as in a template literal, a property key or the argument of \<open>parseInt\<close>.\<close>

fun jsToString :: "jsval \<Rightarrow> string" where
  "jsToString JUndefined = ''undefined''"
| "jsToString JNull = ''null''"
| "jsToString (JBool b) = (if b then ''true'' else ''false'')"
| "jsToString (JNum n) = decimal n"
| "jsToString JNaN = ''NaN''"
| "jsToString (JStr s) = s"
| "jsToString (JInherited k) = memberText k"

text \<open>The method call \<open>v.toString()\<close>: a TypeError (\<open>None\<close>) on \<open>undefined\<close> and \<open>null\<close>.\<close>

fun toStringMethod :: "jsval \<Rightarrow> string option" where
  "toStringMethod JUndefined = None"
| "toStringMethod JNull = None"
| "toStringMethod v = Some (jsToString v)"

text \<open>White space, as far as it lies in ASCII.\<close>

definition isWhite :: "char \<Rightarrow> bool" where
  "isWhite c = (c \<in> set [CHR 0x09, CHR 0x0A, CHR 0x0B, CHR 0x0C, CHR 0x0D, CHR 0x20])"

text \<open>The value of a character as a digit: \<open>0-9\<close>, then \<open>a-z\<close> or \<open>A-Z\<close> from ten on.\<close>

definition digitVal :: "char \<Rightarrow> nat option" where
  "digitVal c =
     (let n = of_char c :: nat
      in if 48 \<le> n \<and> n \<le> 57 then Some (n - 48)
         else if 97 \<le> n \<and> n \<le> 122 then Some (n - 87)
         else if 65 \<le> n \<and> n \<le> 90 then Some (n - 55)
         else None)"

definition inRadix :: "nat \<Rightarrow> char \<Rightarrow> bool" where
  "inRadix r c = (case digitVal c of None \<Rightarrow> False | Some d \<Rightarrow> d < r)"

definition digitsValue :: "nat \<Rightarrow> string \<Rightarrow> nat" where
  "digitsValue r ds = foldl (\<lambda>a c. a * r + the (digitVal c)) 0 ds"

definition hexPrefix :: "string \<Rightarrow> bool" where
  "hexPrefix s = (take 2 s = ''0x'' \<or> take 2 s = ''0X'')"

text \<open>
  \<open>parseInt(s)\<close> without a radix: leading white space and one sign are skipped, a
  \<open>0x\<close> prefix selects base sixteen, the longest prefix of digits is read, and there
  being none gives \<open>NaN\<close>.
\<close>

definition parseIntStr :: "string \<Rightarrow> jsval" where
  "parseIntStr s =
     (let s1 = dropWhile isWhite s;
          neg = (take 1 s1 = ''-'');
          s2 = (if take 1 s1 = ''-'' \<or> take 1 s1 = ''+'' then drop 1 s1 else s1);
          r = (if hexPrefix s2 then 16 else 10);
          s3 = (if hexPrefix s2 then drop 2 s2 else s2);
          ds = takeWhile (inRadix r) s3
      in if ds = [] then JNaN
         else JNum ((if neg then - 1 else 1) * int (digitsValue r ds)))"

definition parseInt :: "jsval \<Rightarrow> jsval" where
  "parseInt v = parseIntStr (jsToString v)"

text \<open>
  The product \<open>a * b\<close> of two values. \<open>None\<close> stands for a result this model does not
  compute: a string operand (its numeric conversion) or a product beyond the safe
  integers (where the Number is rounded).
\<close>

fun toNumber :: "jsval \<Rightarrow> jsval option" where
  "toNumber JUndefined = Some JNaN"
| "toNumber JNull = Some (JNum 0)"
| "toNumber (JBool b) = Some (JNum (if b then 1 else 0))"
| "toNumber (JNum n) = Some (JNum n)"
| "toNumber JNaN = Some JNaN"
| "toNumber (JStr s) = None"
| "toNumber (JInherited k) = Some JNaN"

fun jsTimes :: "jsval \<Rightarrow> jsval \<Rightarrow> jsval option" where
  "jsTimes a b =
     (case (toNumber a, toNumber b) of
        (Some (JNum x), Some (JNum y)) \<Rightarrow>
          (if \<bar>x * y\<bar> \<le> maxSafe then Some (JNum (x * y)) else None)
      | (Some _, Some _) \<Rightarrow> Some JNaN
      | _ \<Rightarrow> None)"

subsection \<open>Object literals and property lookup\<close>

text \<open>
  \<open>obj[key]\<close> on an object literal finds the literal's own entries first and then the
  members of \<open>Object.prototype\<close>; anything else is \<open>undefined\<close>.
\<close>

definition objectPrototypeKeys :: "string list" where
  "objectPrototypeKeys =
     [''constructor'', ''__defineGetter__'', ''__defineSetter__'', ''hasOwnProperty'',
      ''__lookupGetter__'', ''__lookupSetter__'', ''isPrototypeOf'', ''propertyIsEnumerable'',
      ''toString'', ''valueOf'', ''__proto__'', ''toLocaleString'']"

datatype 'a member = Own 'a | Inherited string | Absent

definition getProp :: "(string \<times> 'a) list \<Rightarrow> jsval \<Rightarrow> 'a member" where
  "getProp obj key =
     (let k = jsToString key
      in case map_of obj k of
           Some v \<Rightarrow> Own v
         | None \<Rightarrow> if k \<in> set objectPrototypeKeys then Inherited k else Absent)"

text \<open>
  A JSON object whose entries are values: a request body, a metadata map. The first
  entry of a key is the value of that property.
\<close>

type_synonym jsobject = "(string \<times> jsval) list"

definition field :: "jsobject \<Rightarrow> string \<Rightarrow> jsval" where
  "field obj k = (case getProp obj (JStr k) of Own v \<Rightarrow> v | Inherited m \<Rightarrow> JInherited m | Absent \<Rightarrow> JUndefined)"

section \<open>Catalog\<close>

record product =
  price :: int
  name :: string
  shippingRequired :: bool

definition PRODUCTS :: "(string \<times> product) list" where
  "PRODUCTS =
     [(''digital'', \<lparr>price = 7900, name = ''Digital Only'', shippingRequired = False\<rparr>),
      (''print'', \<lparr>price = 18900, name = ''Fine-Art Print'', shippingRequired = True\<rparr>),
      (''framed'', \<lparr>price = 39900, name = ''Framed Edition'', shippingRequired = True\<rparr>)]"

definition VIBES :: "(string \<times> string) list" where
  "VIBES =
     [(''homeAlone'', ''Home Alone''),
      (''elf'', ''Elf''),
      (''vacation'', ''Christmas Vacation'')]"

text \<open>Truthiness of a looked-up entry, as tested by \<open>!PRODUCTS[tier]\<close> and \<open>!VIBES[vibe]\<close>.\<close>

fun productFound :: "product member \<Rightarrow> bool" where
  "productFound (Own p) = True"
| "productFound (Inherited k) = True"
| "productFound Absent = False"

fun memberValue :: "string member \<Rightarrow> jsval" where
  "memberValue (Own s) = JStr s"
| "memberValue (Inherited k) = JInherited k"
| "memberValue Absent = JUndefined"

text \<open>\<open>product.price\<close> and \<open>product.name\<close> on a looked-up, truthy entry.\<close>

fun priceOf :: "product member \<Rightarrow> jsval" where
  "priceOf (Own p) = JNum (price p)"
| "priceOf (Inherited k) = JUndefined"
| "priceOf Absent = JUndefined"

text \<open>\<open>PRODUCTS[t].name\<close>: a TypeError (\<open>None\<close>) when the lookup is \<open>undefined\<close>.\<close>

fun nameOf :: "product member \<Rightarrow> jsval option" where
  "nameOf (Own p) = Some (JStr (name p))"
| "nameOf (Inherited k) = Some (memberName k)"
| "nameOf Absent = None"

section \<open>Server state and collaborators\<close>

record order =
  id' :: jsval
  stripeSessionId :: jsval
  stripePaymentIntent :: jsval
  vibe :: jsval
  tier :: jsval
  quantity :: jsval
  uploadId :: jsval
  customerName :: jsval
  customerEmail :: jsval
  customerPhone :: jsval
  shippingAddress :: jsval
  notes' :: jsval
  amount :: jsval
  status :: jsval
  createdAt :: string
  updatedAt :: string

text \<open>
  The argument of \<open>stripe.checkout.sessions.create\<close>, reduced to the entries computed
  from the request: the product label (the two values of the template
  \<open>${VIBES[vibe]} - ${product.name}\<close>), \<open>unit_amount\<close>, the line item's \<open>quantity\<close>,
  \<open>customer_email\<close> and \<open>metadata\<close>.
\<close>

record checkout_params =
  product_label :: "jsval \<times> jsval"
  unit_amount :: jsval
  line_quantity :: jsval
  param_customer_email :: jsval
  param_metadata :: jsobject

text \<open>
  The checkout session carried by an event (\<open>event.data.object\<close>) and the event. A
  session always has a metadata object; for event types other than a completed
  checkout the handler does not read the object at all.
\<close>

record session =
  session_id :: jsval
  payment_intent :: jsval
  customer_email :: jsval
  amount_total :: jsval
  metadata :: jsobject

record event =
  event_type :: string
  data_object :: session

text \<open>
  What a handler finds in \<open>req.body\<close>: the raw bytes (a \<open>Buffer\<close>) when
  \<open>express.raw\<close> has read the body, or a parsed object when \<open>express.json\<close> has.
\<close>

datatype reqbody = Buffer string | Parsed jsobject

text \<open>
  The payment processor's client. \<open>verifyRaw\<close> is \<open>stripe.webhooks.constructEvent\<close> on
  the raw bytes: it checks them against the signature header with the configured secret
  and either throws (\<open>Inl\<close> the message) or returns the event. \<open>sessions_create\<close>
  either throws (\<open>None\<close>) or returns the session's \<open>id\<close> and \<open>url\<close>. Both are
  parameters of the model.

  On a payload that is a parsed object \<open>constructEvent\<close> always throws: the library
  signs the payload's string conversion and, should that match, reads the event with
  \<open>JSON.parse\<close> from the same string, which for an object is \<open>[object Object]\<close>. Only
  the message (\<open>objectMessage\<close>) depends on the client.
\<close>

record stripe =
  verifyRaw :: "string \<Rightarrow> jsval \<Rightarrow> string + event"
  objectMessage :: "jsobject \<Rightarrow> jsval \<Rightarrow> string"
  sessions_create :: "checkout_params \<Rightarrow> (jsval \<times> jsval) option"

definition constructEvent :: "stripe \<Rightarrow> reqbody \<Rightarrow> jsval \<Rightarrow> string + event" where
  "constructEvent S payload sig =
     (case payload of
        Buffer raw \<Rightarrow> verifyRaw S raw sig
      | Parsed obj \<Rightarrow> Inl (objectMessage S obj sig))"

text \<open>
  A mail handed to \<open>transporter.sendMail\<close>: the recipient (a value of the order, or the
  configured \<open>ADMIN_EMAIL\<close>), the subject and the HTML body. Subject and body are kept
  as their templates with the values interpolated into them, in order of appearance: the
  sender address, the fixed wording and markup, and the formatting of a value (the
  first eight characters of the identifier in a subject, the upper case of the status,
  the two decimals of the amount) are left out. The transporter is a parameter: given
  the mails handed over so far and the next one, it says whether \<open>sendMail\<close> resolves
  (\<open>True\<close>) or rejects.
\<close>

datatype recipient = To jsval | ADMIN_EMAIL

datatype subject_line =
    OrderConfirmationSubject
  | NewOrderSubject jsval
  | OrderUpdateSubject jsval

record mail =
  recipient :: recipient
  subject :: subject_line
  html :: "jsval list"

type_synonym transporter = "mail list \<Rightarrow> mail \<Rightarrow> bool"

text \<open>
  The state the handlers act on: the order collection \<open>db.data.orders\<close>, the lines
  written with \<open>console.error\<close>, the mails handed to the transporter and the session
  requests made to the processor. Writing the database file is assumed to succeed.
\<close>

record state =
  orders :: "order list"
  console :: "string list"
  mails :: "mail list"
  sessionRequests :: "checkout_params list"

datatype payload =
    ErrorJson string
  | Text string
  | Received
  | SessionJson jsval jsval
  | OrderJson order
  | ParserError

text \<open>
  What the client gets: a status code with a body, or nothing when an exception leaves
  a handler that has no \<open>try\<close> around it.
\<close>

datatype reply = Reply nat payload | Unhandled

section \<open>Notifications\<close>

text \<open>\<open>try { await transporter.sendMail(mailOptions) } catch (error) { console.error(label, error) }\<close>\<close>

definition trySendMail :: "transporter \<Rightarrow> string \<Rightarrow> mail \<Rightarrow> state \<Rightarrow> state" where
  "trySendMail T label mailOptions st =
     (let st1 = st\<lparr>mails := mails st @ [mailOptions]\<rparr>
      in if T (mails st) mailOptions then st1
         else st1\<lparr>console := console st1 @ [label]\<rparr>)"

text \<open>
  The three senders. Each builds \<open>mailOptions\<close> first and then sends inside a
  \<open>try\<close>. A TypeError raised while the mail is built (\<open>None\<close>) is outside the
  \<open>try\<close> and leaves the sender.
\<close>

definition confirmationMail :: "order \<Rightarrow> mail option" where
  "confirmationMail order =
     (let vibeName = memberValue (getProp VIBES (vibe order))
      in case nameOf (getProp PRODUCTS (tier order)) of
           None \<Rightarrow> None
         | Some productName \<Rightarrow>
             Some \<lparr>recipient = To (customerEmail order),
                   subject = OrderConfirmationSubject,
                   html = [customerName order, vibeName, productName, quantity order, id' order,
                           amount order,
                           if truthy (notes' order) then notes' order else JStr []]\<rparr>)"

definition sendOrderConfirmation :: "transporter \<Rightarrow> order \<Rightarrow> state \<Rightarrow> state option" where
  "sendOrderConfirmation T order st =
     (case confirmationMail order of
        None \<Rightarrow> None
      | Some mailOptions \<Rightarrow> Some (trySendMail T ''Email error:'' mailOptions st))"

definition internalMail :: "order \<Rightarrow> mail option" where
  "internalMail order =
     (let vibeName = memberValue (getProp VIBES (vibe order))
      in case nameOf (getProp PRODUCTS (tier order)) of
           None \<Rightarrow> None
         | Some productName \<Rightarrow>
             Some \<lparr>recipient = ADMIN_EMAIL,
                   subject = NewOrderSubject (id' order),
                   html = [customerName order, customerEmail order,
                           jsOr (customerPhone order) (JStr ''N/A''),
                           id' order, vibeName, productName, quantity order, amount order,
                           uploadId order, uploadId order,
                           if truthy (shippingAddress order) then shippingAddress order else JStr [],
                           if truthy (notes' order) then notes' order else JStr []]\<rparr>)"

definition sendInternalNotification :: "transporter \<Rightarrow> order \<Rightarrow> state \<Rightarrow> state option" where
  "sendInternalNotification T order st =
     (case internalMail order of
        None \<Rightarrow> None
      | Some mailOptions \<Rightarrow> Some (trySendMail T ''Internal email error:'' mailOptions st))"

definition statusMessages :: "(string \<times> string) list" where
  "statusMessages =
     [(''pending'', ''Your order is being processed.''),
      (''designing'', ''Our team is creating your custom poster!''),
      (''proof_ready'', ''Your proof is ready for review! Check your email for the preview.''),
      (''approved'', ''Your design has been approved and is being prepared.''),
      (''printing'', ''Your poster is being printed on museum-quality paper.''),
      (''shipped'', ''Your order has shipped! Check your email for tracking info.''),
      (''completed'', ''Your order is complete! We hope you love it.'')]"

text \<open>
  \<open>order.id.substring(0, 8)\<close> and \<open>order.status.toUpperCase()\<close> are method calls that
  only a string has: on any other value they raise a TypeError.
\<close>

fun isString :: "jsval \<Rightarrow> bool" where
  "isString (JStr s) = True"
| "isString v = False"

definition statusMail :: "order \<Rightarrow> mail option" where
  "statusMail order =
     (if \<not> isString (id' order) then None
      else if \<not> isString (status order) then None
      else Some \<lparr>recipient = To (customerEmail order),
                 subject = OrderUpdateSubject (id' order),
                 html = [customerName order, status order,
                         memberValue (getProp statusMessages (status order)),
                         id' order]\<rparr>)"

definition sendStatusUpdate :: "transporter \<Rightarrow> order \<Rightarrow> state \<Rightarrow> state option" where
  "sendStatusUpdate T order st =
     (case statusMail order of
        None \<Rightarrow> None
      | Some mailOptions \<Rightarrow> Some (trySendMail T ''Status email error:'' mailOptions st))"

section \<open>Checkout initiation: \<open>POST /api/create-checkout\<close>\<close>

text \<open>
  \<open>const totalAmount = product.price * quantity\<close>. The handler computes this value
  and does not use it afterwards: the processor is given \<open>unit_amount\<close> and \<open>quantity\<close>.
\<close>

definition totalAmount :: "jsobject \<Rightarrow> jsval option" where
  "totalAmount body =
     (let product = getProp PRODUCTS (field body ''tier'')
      in jsTimes (priceOf product) (field body ''quantity''))"

text \<open>
  The session request built from a body that passed validation; \<open>uuid\<close> is the result
  of \<open>uuidv4()\<close>. \<open>None\<close> is the TypeError of \<open>quantity.toString()\<close>.
\<close>

definition checkoutParams :: "string \<Rightarrow> jsobject \<Rightarrow> checkout_params option" where
  "checkoutParams uuid body =
     (let product = getProp PRODUCTS (field body ''tier'')
      in case nameOf product of
           None \<Rightarrow> None
         | Some productName \<Rightarrow>
             (case toStringMethod (field body ''quantity'') of
                None \<Rightarrow> None
              | Some quantityString \<Rightarrow>
                  Some \<lparr>product_label = (memberValue (getProp VIBES (field body ''vibe'')), productName),
                        unit_amount = priceOf product,
                        line_quantity = field body ''quantity'',
                        param_customer_email = field body ''customerEmail'',
                        param_metadata =
                          [(''orderId'', JStr uuid),
                           (''vibe'', field body ''vibe''),
                           (''tier'', field body ''tier''),
                           (''quantity'', JStr quantityString),
                           (''uploadId'', field body ''uploadId''),
                           (''customerName'', field body ''customerName''),
                           (''customerPhone'', jsOr (field body ''customerPhone'') (JStr [])),
                           (''shippingAddress'', jsOr (field body ''shippingAddress'') (JStr [])),
                           (''notes'', jsOr (field body ''notes'') (JStr []))]\<rparr>))"

definition checkoutFailed :: "state \<Rightarrow> state \<times> reply" where
  "checkoutFailed st =
     (st\<lparr>console := console st @ [''Checkout error:'']\<rparr>,
      Reply 500 (ErrorJson ''Failed to create checkout session''))"

definition createCheckout :: "stripe \<Rightarrow> string \<Rightarrow> jsobject \<Rightarrow> state \<Rightarrow> state \<times> reply" where
  "createCheckout S uuid body st =
     (if \<not> truthy (field body ''vibe'') \<or> \<not> truthy (field body ''tier'')
         \<or> \<not> truthy (field body ''quantity'') \<or> \<not> truthy (field body ''uploadId'')
         \<or> \<not> truthy (field body ''customerName'') \<or> \<not> truthy (field body ''customerEmail'')
      then (st, Reply 400 (ErrorJson ''Missing required fields''))
      else if \<not> productFound (getProp PRODUCTS (field body ''tier''))
      then (st, Reply 400 (ErrorJson ''Invalid tier''))
      else if \<not> truthy (memberValue (getProp VIBES (field body ''vibe'')))
      then (st, Reply 400 (ErrorJson ''Invalid vibe''))
      else
        (case checkoutParams uuid body of
           None \<Rightarrow> checkoutFailed st
         | Some params \<Rightarrow>
             (let st1 = st\<lparr>sessionRequests := sessionRequests st @ [params]\<rparr>
              in case sessions_create S params of
                   None \<Rightarrow> checkoutFailed st1
                 | Some (sid, url) \<Rightarrow> (st1, Reply 200 (SessionJson sid url)))))"

section \<open>Payment events: \<open>POST /api/webhook\<close>\<close>

text \<open>
  The order record built from a completed session; \<open>t1\<close> and \<open>t2\<close> are the two
  readings of the clock (\<open>new Date().toISOString()\<close>).
\<close>

definition buildOrder :: "session \<Rightarrow> string \<Rightarrow> string \<Rightarrow> order" where
  "buildOrder session t1 t2 =
     \<lparr>id' = field (metadata session) ''orderId'',
      stripeSessionId = session_id session,
      stripePaymentIntent = payment_intent session,
      vibe = field (metadata session) ''vibe'',
      tier = field (metadata session) ''tier'',
      quantity = parseInt (field (metadata session) ''quantity''),
      uploadId = field (metadata session) ''uploadId'',
      customerName = field (metadata session) ''customerName'',
      customerEmail = customer_email session,
      customerPhone = field (metadata session) ''customerPhone'',
      shippingAddress = field (metadata session) ''shippingAddress'',
      notes' = field (metadata session) ''notes'',
      amount = amount_total session,
      status = JStr ''pending'',
      createdAt = t1,
      updatedAt = t2\<rparr>"

text \<open>
  The handler: \<open>body\<close> is \<open>req.body\<close> as the body parsers left it, \<open>sig\<close> the value
  of the \<open>stripe-signature\<close> header. It has no \<open>try\<close> around the part after
  verification, so a TypeError raised while a mail is built leaves it after the order
  has been stored.
\<close>

definition webhook ::
  "stripe \<Rightarrow> transporter \<Rightarrow> string \<Rightarrow> string \<Rightarrow> reqbody \<Rightarrow> jsval \<Rightarrow> state \<Rightarrow> state \<times> reply" where
  "webhook S T t1 t2 body sig st =
     (case constructEvent S body sig of
        Inl message \<Rightarrow>
          (st\<lparr>console := console st @ [''Webhook error: '' @ message]\<rparr>,
           Reply 400 (Text (''Webhook Error: '' @ message)))
      | Inr event \<Rightarrow>
          if event_type event = ''checkout.session.completed''
          then
            (let order = buildOrder (data_object event) t1 t2;
                 st1 = st\<lparr>orders := orders st @ [order]\<rparr>
             in case sendOrderConfirmation T order st1 of
                  None \<Rightarrow> (st1, Unhandled)
                | Some st2 \<Rightarrow>
                    (case sendInternalNotification T order st2 of
                       None \<Rightarrow> (st2, Unhandled)
                     | Some st3 \<Rightarrow> (st3, Reply 200 Received)))
          else (st, Reply 200 Received))"

subsection \<open>The body parsers in front of the handler\<close>

text \<open>
  A request to the route, as far as the parsers look at it: whether it announces a body
  (\<open>Content-Length\<close> or \<open>Transfer-Encoding\<close>), whether its \<open>Content-Type\<close> matches
  \<open>application/json\<close>, the bytes of the body and the \<open>stripe-signature\<close> header.
\<close>

record request =
  hasBody :: bool
  jsonType :: bool
  rawBody :: string
  stripeSignature :: jsval

text \<open>
  Reading the bytes as JSON is a parameter: it gives the parsed object, or the status
  of the error (400 for malformed text, 413 for a body that is too large, ...) with
  what the default error handler writes to the console.
\<close>

type_synonym jsonReader = "string \<Rightarrow> (nat \<times> string list) + jsobject"

text \<open>
  \<open>app.use(express.json())\<close> is registered for every route and runs first. It sets
  \<open>req.body\<close> to \<open>{}\<close> and passes on when the request has no body or another content
  type; otherwise it reads the body, and either fails the request or stores the parsed
  object and marks the request as parsed (the second component).
\<close>

definition expressJson :: "jsonReader \<Rightarrow> request \<Rightarrow> (nat \<times> string list) + (reqbody \<times> bool)" where
  "expressJson J req =
     (if \<not> hasBody req \<or> \<not> jsonType req then Inr (Parsed [], False)
      else case J (rawBody req) of
             Inl err \<Rightarrow> Inl err
           | Inr obj \<Rightarrow> Inr (Parsed obj, True))"

text \<open>
  \<open>express.raw({ type: 'application/json' })\<close> is the route's own parser and runs
  second. It passes on when the request is marked as parsed, has no body or has another
  content type, and keeps the \<open>req.body\<close> it finds; otherwise it stores the bytes.
\<close>

definition expressRaw :: "request \<Rightarrow> reqbody \<times> bool \<Rightarrow> reqbody \<times> bool" where
  "expressRaw req parsed =
     (if snd parsed \<or> \<not> hasBody req \<or> \<not> jsonType req then parsed
      else (Buffer (rawBody req), True))"

text \<open>The route: the two parsers, then the handler.\<close>

definition webhookRoute ::
  "jsonReader \<Rightarrow> stripe \<Rightarrow> transporter \<Rightarrow> string \<Rightarrow> string \<Rightarrow> request \<Rightarrow> state \<Rightarrow> state \<times> reply" where
  "webhookRoute J S T t1 t2 req st =
     (case expressJson J req of
        Inl (code, logged) \<Rightarrow> (st\<lparr>console := console st @ logged\<rparr>, Reply code ParserError)
      | Inr parsed \<Rightarrow>
          webhook S T t1 t2 (fst (expressRaw req parsed)) (stripeSignature req) st)"

section \<open>Status updates: \<open>PATCH /api/admin/orders/:orderId\<close>\<close>

text \<open>The position of the first element \<open>Array.prototype.find\<close> returns, if any.\<close>

fun findIndex :: "('a \<Rightarrow> bool) \<Rightarrow> 'a list \<Rightarrow> nat option" where
  "findIndex P [] = None"
| "findIndex P (x # xs) = (if P x then Some 0 else map_option Suc (findIndex P xs))"

text \<open>
  \<open>orderId\<close> is the path parameter (always a string), \<open>newStatus\<close> the \<open>status\<close> entry
  of the request body (\<open>JUndefined\<close> when the body has none), \<open>now\<close> the clock. The
  found order is changed in place before the mail is built; an exception from
  \<open>sendStatusUpdate\<close> is caught by the handler's \<open>try\<close>.
\<close>

definition updateStatus ::
  "transporter \<Rightarrow> string \<Rightarrow> string \<Rightarrow> jsval \<Rightarrow> state \<Rightarrow> state \<times> reply" where
  "updateStatus T now orderId newStatus st =
     (case findIndex (\<lambda>x. id' x = JStr orderId) (orders st) of
        None \<Rightarrow> (st, Reply 404 (ErrorJson ''Order not found''))
      | Some i \<Rightarrow>
          (let order = (orders st ! i)\<lparr>status := newStatus, updatedAt := now\<rparr>;
               st1 = st\<lparr>orders := (orders st)[i := order]\<rparr>
           in case sendStatusUpdate T order st1 of
                None \<Rightarrow>
                  (st1\<lparr>console := console st1 @ [''Order update error:'']\<rparr>,
                   Reply 500 (ErrorJson ''Failed to update order''))
              | Some st2 \<Rightarrow> (st2, Reply 200 (OrderJson order))))"

section \<open>Delivery sequences and sample data\<close>

text \<open>
  Requests delivered to the route one after the other, each with its two clock
  readings and acting on the state the previous one left. A delivery that ends with an
  exception nobody handles ends the server process: the later ones are not served.
\<close>

fun deliverAll ::
  "jsonReader \<Rightarrow> stripe \<Rightarrow> transporter \<Rightarrow> (string \<times> string \<times> request) list \<Rightarrow> state \<Rightarrow> state" where
  "deliverAll J S T [] st = st"
| "deliverAll J S T ((t1, t2, req) # ds) st =
     (case webhookRoute J S T t1 t2 req st of
        (st', Unhandled) \<Rightarrow> st'
      | (st', Reply code body) \<Rightarrow> deliverAll J S T ds st')"

text \<open>The orders of a collection that carry a given session identifier.\<close>

definition ordersOfSession :: "jsval \<Rightarrow> order list \<Rightarrow> order list" where
  "ordersOfSession sid os = filter (\<lambda>x. stripeSessionId x = sid) os"

text \<open>The start state \<open>{ orders: [], uploads: [] }\<close>, with nothing logged or sent.\<close>

definition emptyState :: state where
  "emptyState = \<lparr>orders = [], console = [], mails = [], sessionRequests = []\<rparr>"

text \<open>
  Concrete inputs for the examples below: a request body for two prints without the
  optional entries, the session and the events a processor could deliver for it, the
  requests that carry them, a processor client that accepts the signature header
  \<open>valid\<close> on raw bytes, a JSON reader for the two bodies, two transporters and two
  stores.
\<close>

definition sampleBody :: jsobject where
  "sampleBody =
     [(''vibe'', JStr ''elf''), (''tier'', JStr ''print''), (''quantity'', JNum 2),
      (''uploadId'', JStr ''up-1''), (''customerName'', JStr ''Ann''),
      (''customerEmail'', JStr ''ann@example.com'')]"

text \<open>
  Variants of the body: a negative quantity, a tier that names an inherited member, a
  tier that names nothing, and a body without the customer's name.
\<close>

definition negativeQuantityBody :: jsobject where
  "negativeQuantityBody =
     [(''vibe'', JStr ''elf''), (''tier'', JStr ''print''), (''quantity'', JNum (- 1)),
      (''uploadId'', JStr ''up-1''), (''customerName'', JStr ''Ann''),
      (''customerEmail'', JStr ''ann@example.com'')]"

definition constructorTierBody :: jsobject where
  "constructorTierBody =
     [(''vibe'', JStr ''elf''), (''tier'', JStr ''constructor''), (''quantity'', JNum 2),
      (''uploadId'', JStr ''up-1''), (''customerName'', JStr ''Ann''),
      (''customerEmail'', JStr ''ann@example.com'')]"

definition unknownTierBody :: jsobject where
  "unknownTierBody =
     [(''vibe'', JStr ''elf''), (''tier'', JStr ''canvas''), (''quantity'', JNum 2),
      (''uploadId'', JStr ''up-1''), (''customerName'', JStr ''Ann''),
      (''customerEmail'', JStr ''ann@example.com'')]"

definition namelessBody :: jsobject where
  "namelessBody =
     [(''vibe'', JStr ''elf''), (''tier'', JStr ''print''), (''quantity'', JNum 2),
      (''uploadId'', JStr ''up-1''), (''customerEmail'', JStr ''ann@example.com'')]"

definition sampleSession :: session where
  "sampleSession =
     \<lparr>session_id = JStr ''cs_test_1'',
      payment_intent = JStr ''pi_1'',
      customer_email = JStr ''ann@example.com'',
      amount_total = JNum 37800,
      metadata =
        [(''orderId'', JStr ''ord-1''), (''vibe'', JStr ''elf''), (''tier'', JStr ''print''),
         (''quantity'', JStr ''2''), (''uploadId'', JStr ''up-1''),
         (''customerName'', JStr ''Ann''), (''customerPhone'', JStr []),
         (''shippingAddress'', JStr []), (''notes'', JStr [])]\<rparr>"

definition completedEvent :: event where
  "completedEvent = \<lparr>event_type = ''checkout.session.completed'', data_object = sampleSession\<rparr>"

definition expiredEvent :: event where
  "expiredEvent = \<lparr>event_type = ''checkout.session.expired'', data_object = sampleSession\<rparr>"

definition sampleStripe :: stripe where
  "sampleStripe =
     \<lparr>verifyRaw =
        (\<lambda>raw sig.
           if sig \<noteq> JStr ''valid''
           then Inl ''No signatures found matching the expected signature for payload''
           else if raw = ''completed'' then Inr completedEvent else Inr expiredEvent),
      objectMessage = (\<lambda>obj sig. ''Webhook payload must be provided as a string or a Buffer''),
      sessions_create = (\<lambda>params. Some (JStr ''cs_test_1'', JStr ''https://pay.example/cs_test_1''))\<rparr>"

definition sampleReader :: jsonReader where
  "sampleReader raw =
     (if raw = ''completed'' then Inr [(''id'', JStr ''evt_1''), (''type'', JStr ''checkout.session.completed'')]
      else if raw = ''expired'' then Inr [(''id'', JStr ''evt_2''), (''type'', JStr ''checkout.session.expired'')]
      else Inl (400, [''SyntaxError'']))"

definition completedRequest :: request where
  "completedRequest =
     \<lparr>hasBody = True, jsonType = True, rawBody = ''completed'', stripeSignature = JStr ''valid''\<rparr>"

definition expiredRequest :: request where
  "expiredRequest =
     \<lparr>hasBody = True, jsonType = True, rawBody = ''expired'', stripeSignature = JStr ''valid''\<rparr>"

definition refusingStripe :: stripe where
  "refusingStripe = sampleStripe\<lparr>sessions_create := (\<lambda>params. None)\<rparr>"

definition resolving :: transporter where
  "resolving sent m = True"

definition rejecting :: transporter where
  "rejecting sent m = False"

definition sampleOrder :: order where
  "sampleOrder = buildOrder sampleSession ''2024-12-01T10:00:00.000Z'' ''2024-12-01T10:00:00.001Z''"

definition sampleStore :: state where
  "sampleStore = emptyState\<lparr>orders := [sampleOrder]\<rparr>"

text \<open>A store in which two orders carry the same identifier.\<close>

definition twinStore :: state where
  "twinStore = emptyState\<lparr>orders := [sampleOrder, sampleOrder\<lparr>customerName := JStr ''Bob''\<rparr>]\<rparr>"

section \<open>Numbers as strings: auxiliary facts\<close>

lemma digitChar_mem: "d < 10 \<Longrightarrow> digitChar d \<in> set ''0123456789''"
  unfolding digitChar_def by (rule nth_mem) simp

lemma digitVal_digitChar: "d < 10 \<Longrightarrow> digitVal (digitChar d) = Some d"
proof -
  assume "d < 10"
  then have "d \<in> {0,1,2,3,4,5,6,7,8,9}" by auto
  then show ?thesis
    by (auto simp: digitVal_def digitChar_def Let_def)
qed

lemma digit_plain:
  assumes "c \<in> set ''0123456789''"
  shows "\<not> isWhite c" "c \<noteq> CHR ''-''" "c \<noteq> CHR ''+''" "c \<noteq> CHR ''x''" "c \<noteq> CHR ''X''"
    "inRadix 10 c"
  using assms by (auto simp: isWhite_def inRadix_def digitVal_def)

lemma decimalNat_digits: "set (decimalNat n) \<subseteq> set ''0123456789''"
proof (induction n rule: decimalNat.induct)
  case (1 n)
  show ?case
  proof (cases "n < 10")
    case True
    then show ?thesis using digitChar_mem [of n] by (subst decimalNat.simps) simp
  next
    case False
    have "digitChar (n mod 10) \<in> set ''0123456789''" by (rule digitChar_mem) simp
    with False 1 show ?thesis by (subst decimalNat.simps) simp
  qed
qed

lemma decimalNat_nonempty: "decimalNat n \<noteq> []"
  by (subst decimalNat.simps) simp

lemma digitsValue_snoc: "digitsValue r (ds @ [c]) = digitsValue r ds * r + the (digitVal c)"
  by (simp add: digitsValue_def)

lemma digitsValue_decimalNat: "digitsValue 10 (decimalNat n) = n"
proof (induction n rule: decimalNat.induct)
  case (1 n)
  show ?case
  proof (cases "n < 10")
    case True
    then show ?thesis
      by (subst decimalNat.simps) (simp add: digitsValue_def digitVal_digitChar)
  next
    case False
    have "n mod 10 < 10" by simp
    then have "digitVal (digitChar (n mod 10)) = Some (n mod 10)" by (rule digitVal_digitChar)
    with False 1 show ?thesis
      by (subst decimalNat.simps) (simp add: digitsValue_snoc)
  qed
qed

lemma parseIntStr_digits:
  assumes "s \<noteq> []" and "set s \<subseteq> set ''0123456789''"
  shows "parseIntStr s = JNum (int (digitsValue 10 s))"
    and "parseIntStr (CHR ''-'' # s) = JNum (- int (digitsValue 10 s))"
proof -
  obtain c r where s: "s = c # r" using assms(1) by (cases s) auto
  from assms(2) s have c: "c \<in> set ''0123456789''" by auto
  have w: "dropWhile isWhite s = s" using s digit_plain(1) [OF c] by simp
  have nosign: "take 1 s \<noteq> ''-''" "take 1 s \<noteq> ''+''"
    using s digit_plain(2,3) [OF c] by auto
  have nohex: "\<not> hexPrefix s"
  proof
    assume "hexPrefix s"
    then have "CHR ''x'' \<in> set (take 2 s) \<or> CHR ''X'' \<in> set (take 2 s)"
      by (auto simp: hexPrefix_def)
    then have "CHR ''x'' \<in> set s \<or> CHR ''X'' \<in> set s"
      using set_take_subset [of 2 s] by blast
    with assms(2) have "CHR ''x'' \<in> set ''0123456789'' \<or> CHR ''X'' \<in> set ''0123456789''"
      by blast
    then show False by simp
  qed
  have "\<forall>x \<in> set s. inRadix 10 x" using assms(2) digit_plain(6) by blast
  then have all: "takeWhile (inRadix 10) s = s"
    by (simp add: takeWhile_eq_all_conv)
  show "parseIntStr s = JNum (int (digitsValue 10 s))"
    unfolding parseIntStr_def Let_def w
    using nosign nohex assms(1) by (simp add: all)
  have m: "\<not> isWhite (CHR ''-'')" by (simp add: isWhite_def)
  show "parseIntStr (CHR ''-'' # s) = JNum (- int (digitsValue 10 s))"
    unfolding parseIntStr_def Let_def
    using m nohex assms(1) by (simp add: all)
qed

text \<open>Reading back the decimal form of an integer gives the integer.\<close>

lemma parseIntStr_decimal: "parseIntStr (decimal n) = JNum n"
  using parseIntStr_digits [OF decimalNat_nonempty decimalNat_digits]
  by (simp add: decimal_def digitsValue_decimalNat)

section \<open>Payment events\<close>

text \<open>
  Claim C2 (authenticity with atomic rejection). Whenever verification of the raw body
  against the signature header fails, the webhook handler answers with status 400 and
  the verification message, and changes nothing but the error log: the order
  collection, the mails handed to the transporter and the session requests are what
  they were, whatever the payload says.
\<close>

theorem webhook_invalid_signature_rejected:
  assumes "constructEvent S body sig = Inl message"
  shows "webhook S T t1 t2 body sig st =
           (st\<lparr>console := console st @ [''Webhook error: '' @ message]\<rparr>,
            Reply 400 (Text (''Webhook Error: '' @ message)))
         \<and> orders (fst (webhook S T t1 t2 body sig st)) = orders st
         \<and> mails (fst (webhook S T t1 t2 body sig st)) = mails st
         \<and> sessionRequests (fst (webhook S T t1 t2 body sig st)) = sessionRequests st"
  using assms by (simp add: webhook_def)

theorem webhook_invalid_signature_rejected_witness:
  "constructEvent sampleStripe (Buffer ''completed'') (JStr ''forged'')
     = Inl ''No signatures found matching the expected signature for payload''
   \<and> snd (webhook sampleStripe resolving ''t1'' ''t2'' (Buffer ''completed'') (JStr ''forged'') sampleStore)
     = Reply 400 (Text ''Webhook Error: No signatures found matching the expected signature for payload'')
   \<and> orders (fst (webhook sampleStripe resolving ''t1'' ''t2'' (Buffer ''completed'') (JStr ''forged'') sampleStore))
     = [sampleOrder]
   \<and> constructEvent sampleStripe (Parsed [(''type'', JStr ''checkout.session.completed'')]) (JStr ''forged'')
     = Inl ''Webhook payload must be provided as a string or a Buffer''
   \<and> orders (fst (webhook sampleStripe resolving ''t1'' ''t2''
        (Parsed [(''type'', JStr ''checkout.session.completed'')]) (JStr ''forged'') sampleStore))
     = [sampleOrder]"
proof -
  have h: "constructEvent sampleStripe (Buffer ''completed'') (JStr ''forged'')
     = Inl ''No signatures found matching the expected signature for payload''"
    by (simp add: constructEvent_def sampleStripe_def)
  have k: "constructEvent sampleStripe (Parsed [(''type'', JStr ''checkout.session.completed'')]) (JStr ''forged'')
     = Inl ''Webhook payload must be provided as a string or a Buffer''"
    by (simp add: constructEvent_def sampleStripe_def)
  show ?thesis
    using h k
      webhook_invalid_signature_rejected [OF h, of resolving "''t1''" "''t2''" sampleStore]
      webhook_invalid_signature_rejected [OF k, of resolving "''t1''" "''t2''" sampleStore]
    by (simp add: sampleStore_def)
qed

text \<open>
  What reaches the handler through the two parsers is never the raw body: the JSON
  parser has either failed the request or left an object, and then the raw parser
  passes on.
\<close>

lemma parsers_leave_object:
  assumes "expressJson J req = Inr parsed"
  shows "fst (expressRaw req parsed) =
           Parsed (if hasBody req \<and> jsonType req then projr (J (rawBody req)) else [])"
  using assms
  by (auto simp: expressJson_def expressRaw_def split: if_splits sum.splits)

lemma webhookRoute_json:
  assumes "hasBody req" and "jsonType req" and "J (rawBody req) = Inr obj"
  shows "webhookRoute J S T t1 t2 req st =
           webhook S T t1 t2 (Parsed obj) (stripeSignature req) st"
  using assms by (simp add: webhookRoute_def expressJson_def expressRaw_def)

lemma webhookRoute_effect:
  "orders (fst (webhookRoute J S T t1 t2 req st)) = orders st
   \<and> mails (fst (webhookRoute J S T t1 t2 req st)) = mails st
   \<and> sessionRequests (fst (webhookRoute J S T t1 t2 req st)) = sessionRequests st
   \<and> (\<exists>code body. snd (webhookRoute J S T t1 t2 req st) = Reply code body \<and> body \<noteq> Received)"
proof (cases "expressJson J req")
  case (Inl err)
  then show ?thesis by (cases err) (simp add: webhookRoute_def)
next
  case (Inr parsed)
  from parsers_leave_object [OF Inr] obtain obj where o: "fst (expressRaw req parsed) = Parsed obj"
    by blast
  from Inr o show ?thesis
    by (simp add: webhookRoute_def webhook_def constructEvent_def)
qed

text \<open>
  Claim C9 (event filtering) does not hold of the route. A request with a JSON body,
  which is how the processor delivers every event, reaches the handler as a parsed
  object, because the JSON parser registered for all routes runs before the route's raw
  parser. Verification then throws whatever the signature header and the event type
  are: the reply is 400 with the message and a line in the error log, not an
  acknowledgement. The example after it is an authentically signed
  \<open>checkout.session.expired\<close> event.
\<close>

theorem webhookRoute_rejects_json_event:
  assumes "hasBody req" and "jsonType req" and "J (rawBody req) = Inr obj"
  shows "webhookRoute J S T t1 t2 req st =
           (st\<lparr>console := console st @ [''Webhook error: '' @ objectMessage S obj (stripeSignature req)]\<rparr>,
            Reply 400 (Text (''Webhook Error: '' @ objectMessage S obj (stripeSignature req))))"
  using assms
  by (simp add: webhookRoute_json webhook_def constructEvent_def)

theorem webhookRoute_rejects_json_event_witness:
  "verifyRaw sampleStripe (rawBody expiredRequest) (stripeSignature expiredRequest) = Inr expiredEvent
   \<and> event_type expiredEvent = ''checkout.session.expired''
   \<and> hasBody expiredRequest \<and> jsonType expiredRequest
   \<and> sampleReader (rawBody expiredRequest)
       = Inr [(''id'', JStr ''evt_2''), (''type'', JStr ''checkout.session.expired'')]
   \<and> webhookRoute sampleReader sampleStripe resolving ''t1'' ''t2'' expiredRequest sampleStore
       = (sampleStore\<lparr>console := [''Webhook error: Webhook payload must be provided as a string or a Buffer'']\<rparr>,
          Reply 400 (Text ''Webhook Error: Webhook payload must be provided as a string or a Buffer''))"
proof -
  have h1: "hasBody expiredRequest" and h2: "jsonType expiredRequest"
    by (simp_all add: expiredRequest_def)
  have h3: "sampleReader (rawBody expiredRequest)
       = Inr [(''id'', JStr ''evt_2''), (''type'', JStr ''checkout.session.expired'')]"
    by (simp add: expiredRequest_def sampleReader_def)
  have v: "verifyRaw sampleStripe (rawBody expiredRequest) (stripeSignature expiredRequest) = Inr expiredEvent"
    "event_type expiredEvent = ''checkout.session.expired''"
    by (simp_all add: sampleStripe_def expiredRequest_def expiredEvent_def)
  have c: "console sampleStore = []" by (simp add: sampleStore_def emptyState_def)
  have m: "objectMessage sampleStripe obj sig = ''Webhook payload must be provided as a string or a Buffer''"
    for obj sig by (simp add: sampleStripe_def)
  show ?thesis
    using h1 h2 h3 v
      webhookRoute_rejects_json_event [where J = sampleReader and req = expiredRequest
        and S = sampleStripe and T = resolving and ?t1.0 = "''t1''" and ?t2.0 = "''t2''"
        and st = sampleStore, OF h1 h2 h3]
    by (simp add: c m)
qed

lemma deliverAll_effect:
  "orders (deliverAll J S T ds st) = orders st \<and> mails (deliverAll J S T ds st) = mails st"
proof (induction ds arbitrary: st)
  case Nil
  show ?case by simp
next
  case (Cons d ds)
  obtain t1 t2 req where d: "d = (t1, t2, req)" by (cases d)
  obtain st' r where w: "webhookRoute J S T t1 t2 req st = (st', r)" by (cases "webhookRoute J S T t1 t2 req st")
  from webhookRoute_effect [of J S T t1 t2 req st] w
  have e: "orders st' = orders st" "mails st' = mails st" by simp_all
  show ?case
    using Cons.IH [of st'] e by (cases r) (simp_all add: d w)
qed

text \<open>
  Claim C1 (exactly one order per payment session) does not hold of the route: however
  many requests are delivered, and whatever they carry, the order collection and the
  mails handed to the transporter stay as they were, so a completed session never gets
  its order. The example after it delivers an authentically signed
  \<open>checkout.session.completed\<close> event twice to the empty store, which then holds no
  order for the session instead of one.
\<close>

theorem webhookRoute_never_creates_order:
  "orders (deliverAll J S T ds st) = orders st
   \<and> mails (deliverAll J S T ds st) = mails st
   \<and> ordersOfSession sid (orders (deliverAll J S T ds st)) = ordersOfSession sid (orders st)"
  using deliverAll_effect [of J S T ds st] by simp

theorem webhookRoute_never_creates_order_witness:
  "verifyRaw sampleStripe (rawBody completedRequest) (stripeSignature completedRequest) = Inr completedEvent
   \<and> event_type completedEvent = ''checkout.session.completed''
   \<and> session_id (data_object completedEvent) = JStr ''cs_test_1''
   \<and> ordersOfSession (JStr ''cs_test_1'')
        (orders (deliverAll sampleReader sampleStripe resolving
           [(''t1'', ''t2'', completedRequest), (''t3'', ''t4'', completedRequest)] emptyState)) = []
   \<and> mails (deliverAll sampleReader sampleStripe resolving
           [(''t1'', ''t2'', completedRequest), (''t3'', ''t4'', completedRequest)] emptyState) = []"
proof -
  have v: "verifyRaw sampleStripe (rawBody completedRequest) (stripeSignature completedRequest) = Inr completedEvent"
    "event_type completedEvent = ''checkout.session.completed''"
    "session_id (data_object completedEvent) = JStr ''cs_test_1''"
    by (simp_all add: sampleStripe_def completedRequest_def completedEvent_def sampleSession_def)
  have e: "orders emptyState = []" "mails emptyState = []" by (simp_all add: emptyState_def)
  show ?thesis
    using v
      webhookRoute_never_creates_order [of sampleReader sampleStripe resolving
        "[(''t1'', ''t2'', completedRequest), (''t3'', ''t4'', completedRequest)]" emptyState "JStr ''cs_test_1''"]
    by (simp add: e ordersOfSession_def)
qed

section \<open>Notifications and the handlers that send them\<close>

lemma trySendMail_eq:
  "trySendMail T label m st =
     st\<lparr>mails := mails st @ [m],
        console := console st @ (if T (mails st) m then [] else [label])\<rparr>"
  by (simp add: trySendMail_def Let_def)

lemma trySendMail_orders: "orders (trySendMail T label m st) = orders st"
  by (simp add: trySendMail_def Let_def)

lemma trySendMail_mails: "mails (trySendMail T label m st) = mails st @ [m]"
  by (simp add: trySendMail_def Let_def)

lemma confirmationMail_None:
  "(confirmationMail order = None) = (\<not> productFound (getProp PRODUCTS (tier order)))"
  by (cases "getProp PRODUCTS (tier order)") (simp_all add: confirmationMail_def)

lemma internalMail_None:
  "(internalMail order = None) = (\<not> productFound (getProp PRODUCTS (tier order)))"
  by (cases "getProp PRODUCTS (tier order)") (simp_all add: internalMail_def)

text \<open>
  The handler on a request body that verifies: it stores the order first and then
  sends the two mails, and an order whose tier names nothing in the catalog makes the
  first sender raise.
\<close>

lemma webhook_completed:
  assumes "constructEvent S body sig = Inr event"
    and "event_type event = ''checkout.session.completed''"
  shows "orders (fst (webhook S T t1 t2 body sig st)) = orders st @ [buildOrder (data_object event) t1 t2]"
    and "snd (webhook S T t1 t2 body sig st) =
           (if productFound (getProp PRODUCTS (tier (buildOrder (data_object event) t1 t2)))
            then Reply 200 Received else Unhandled)"
proof -
  let ?order = "buildOrder (data_object event) t1 t2"
  show "orders (fst (webhook S T t1 t2 body sig st)) = orders st @ [?order]"
    using assms
    by (simp add: webhook_def Let_def sendOrderConfirmation_def sendInternalNotification_def
        trySendMail_orders split: option.splits)
  show "snd (webhook S T t1 t2 body sig st) =
           (if productFound (getProp PRODUCTS (tier ?order)) then Reply 200 Received else Unhandled)"
    using assms confirmationMail_None [of ?order] internalMail_None [of ?order]
    by (auto simp: webhook_def Let_def sendOrderConfirmation_def sendInternalNotification_def
        split: option.splits)
qed

lemma handlers_ignore_transporter:
  "orders (fst (webhook S T t1 t2 body sig st)) = orders (fst (webhook S T' t1 t2 body sig st))
   \<and> snd (webhook S T t1 t2 body sig st) = snd (webhook S T' t1 t2 body sig st)
   \<and> orders (fst (updateStatus T now orderId newStatus st))
       = orders (fst (updateStatus T' now orderId newStatus st))
   \<and> snd (updateStatus T now orderId newStatus st) = snd (updateStatus T' now orderId newStatus st)"
proof -
  have w: "orders (fst (webhook S T t1 t2 body sig st)) = orders (fst (webhook S T' t1 t2 body sig st))
    \<and> snd (webhook S T t1 t2 body sig st) = snd (webhook S T' t1 t2 body sig st)"
  proof (cases "constructEvent S body sig")
    case (Inl message)
    then show ?thesis by (simp add: webhook_def)
  next
    case (Inr event)
    show ?thesis
    proof (cases "event_type event = ''checkout.session.completed''")
      case True
      show ?thesis using webhook_completed [OF Inr True] by simp
    next
      case False
      with Inr show ?thesis by (simp add: webhook_def)
    qed
  qed
  have u: "orders (fst (updateStatus T now orderId newStatus st))
       = orders (fst (updateStatus T' now orderId newStatus st))
    \<and> snd (updateStatus T now orderId newStatus st) = snd (updateStatus T' now orderId newStatus st)"
    by (simp add: updateStatus_def Let_def sendStatusUpdate_def trySendMail_orders
        split: option.splits)
  from w u show ?thesis by blast
qed

text \<open>
  Claim C8 (notification failures are never fatal). Each of the three senders, once
  its mail is built, hands it to the transporter and returns normally whatever the
  transporter does: the state it returns is the one it was given with the mail
  recorded and, exactly when the transporter rejects this mail, the sender's line added
  to the error log. Nothing else changes, so the order collection and the reply of the
  webhook handler and of the status update are the same under every transporter.
\<close>

theorem notification_failure_not_fatal:
  "(confirmationMail order = Some m \<longrightarrow>
      sendOrderConfirmation T order st =
        Some (st\<lparr>mails := mails st @ [m],
                 console := console st @ (if T (mails st) m then [] else [''Email error:''])\<rparr>))
   \<and> (internalMail order = Some m \<longrightarrow>
      sendInternalNotification T order st =
        Some (st\<lparr>mails := mails st @ [m],
                 console := console st @ (if T (mails st) m then [] else [''Internal email error:''])\<rparr>))
   \<and> (statusMail order = Some m \<longrightarrow>
      sendStatusUpdate T order st =
        Some (st\<lparr>mails := mails st @ [m],
                 console := console st @ (if T (mails st) m then [] else [''Status email error:''])\<rparr>))
   \<and> orders (fst (webhook S T t1 t2 body sig st)) = orders (fst (webhook S T' t1 t2 body sig st))
   \<and> snd (webhook S T t1 t2 body sig st) = snd (webhook S T' t1 t2 body sig st)
   \<and> orders (fst (updateStatus T now orderId newStatus st))
       = orders (fst (updateStatus T' now orderId newStatus st))
   \<and> snd (updateStatus T now orderId newStatus st) = snd (updateStatus T' now orderId newStatus st)"
  using handlers_ignore_transporter [of S T t1 t2 body sig st T' now orderId newStatus]
  by (simp add: sendOrderConfirmation_def sendInternalNotification_def sendStatusUpdate_def
      trySendMail_eq)

section \<open>Status updates\<close>

lemma findIndex_None: "(findIndex P xs = None) = (\<forall>x \<in> set xs. \<not> P x)"
  by (induction xs) auto

lemma findIndex_Some:
  "findIndex P xs = Some i \<Longrightarrow> i < length xs \<and> P (xs ! i) \<and> (\<forall>j<i. \<not> P (xs ! j))"
proof (induction xs arbitrary: i)
  case Nil
  then show ?case by simp
next
  case (Cons x xs)
  show ?case
  proof (cases "P x")
    case True
    with Cons.prems show ?thesis by simp
  next
    case False
    with Cons.prems obtain k where k: "findIndex P xs = Some k" "i = Suc k" by auto
    from Cons.IH [OF k(1)] False k(2) show ?thesis
      by (auto simp: nth_Cons split: nat.splits)
  qed
qed

lemma findIndex_present:
  assumes "\<exists>x \<in> set xs. P x"
  obtains i where "findIndex P xs = Some i" "i < length xs" "P (xs ! i)" "\<forall>j<i. \<not> P (xs ! j)"
proof -
  from assms have "findIndex P xs \<noteq> None" by (simp add: findIndex_None)
  then obtain i where i: "findIndex P xs = Some i" by auto
  from findIndex_Some [OF i] i that show thesis by blast
qed

text \<open>The status mail of an order that was found by a string and is given a string status.\<close>

lemma updateStatus_found_string:
  assumes "findIndex (\<lambda>x. id' x = JStr orderId) (orders st) = Some i"
  shows "updateStatus T now orderId (JStr s) st =
     (st\<lparr>orders := (orders st)[i := (orders st ! i)\<lparr>status := JStr s, updatedAt := now\<rparr>],
         mails := mails st @
           [\<lparr>recipient = To (customerEmail (orders st ! i)),
             subject = OrderUpdateSubject (JStr orderId),
             html = [customerName (orders st ! i), JStr s,
                     memberValue (getProp statusMessages (JStr s)), JStr orderId]\<rparr>],
         console := console st @
           (if T (mails st)
                 \<lparr>recipient = To (customerEmail (orders st ! i)),
                  subject = OrderUpdateSubject (JStr orderId),
                  html = [customerName (orders st ! i), JStr s,
                          memberValue (getProp statusMessages (JStr s)), JStr orderId]\<rparr>
            then [] else [''Status email error:''])\<rparr>,
      Reply 200 (OrderJson ((orders st ! i)\<lparr>status := JStr s, updatedAt := now\<rparr>)))"
proof -
  from findIndex_Some [OF assms] have "id' (orders st ! i) = JStr orderId" by simp
  then show ?thesis
    using assms
    by (simp add: updateStatus_def Let_def sendStatusUpdate_def statusMail_def trySendMail_eq)
qed

lemma updateStatus_found_not_string:
  assumes "findIndex (\<lambda>x. id' x = JStr orderId) (orders st) = Some i"
    and "\<not> isString newStatus"
  shows "updateStatus T now orderId newStatus st =
     (st\<lparr>orders := (orders st)[i := (orders st ! i)\<lparr>status := newStatus, updatedAt := now\<rparr>],
         console := console st @ [''Order update error:'']\<rparr>,
      Reply 500 (ErrorJson ''Failed to update order''))"
proof -
  from findIndex_Some [OF assms(1)] have "id' (orders st ! i) = JStr orderId" by simp
  then show ?thesis
    using assms by (simp add: updateStatus_def Let_def sendStatusUpdate_def statusMail_def)
qed

lemma sampleOrder_id: "id' sampleOrder = JStr ''ord-1''"
  by (simp add: sampleOrder_def buildOrder_def sampleSession_def field_def getProp_def)

lemma sampleOrder_customer:
  "customerName sampleOrder = JStr ''Ann''" "customerEmail sampleOrder = JStr ''ann@example.com''"
  by (simp_all add: sampleOrder_def buildOrder_def sampleSession_def field_def getProp_def)

lemma sampleStore_orders: "orders sampleStore = [sampleOrder]" "mails sampleStore = []"
  "console sampleStore = []"
  by (simp_all add: sampleStore_def emptyState_def)

lemma twinStore_orders:
  "orders twinStore = [sampleOrder, sampleOrder\<lparr>customerName := JStr ''Bob''\<rparr>]"
  "mails twinStore = []" "console twinStore = []"
  by (simp_all add: twinStore_def emptyState_def)

lemma sampleStore_find:
  "findIndex (\<lambda>x. id' x = JStr ''ord-1'') (orders sampleStore) = Some 0"
  by (simp add: sampleStore_orders sampleOrder_id)

lemma twinStore_find:
  "findIndex (\<lambda>x. id' x = JStr ''ord-1'') (orders twinStore) = Some 0"
  by (simp add: twinStore_orders sampleOrder_id)

lemma shipped_message:
  "memberValue (getProp statusMessages (JStr ''shipped''))
     = JStr ''Your order has shipped! Check your email for tracking info.''"
  by (simp add: getProp_def statusMessages_def)

lemma sampleOrder_fields:
  "vibe sampleOrder = JStr ''elf''" "tier sampleOrder = JStr ''print''"
  "quantity sampleOrder = JNum 2" "uploadId sampleOrder = JStr ''up-1''"
  "customerPhone sampleOrder = JStr []" "shippingAddress sampleOrder = JStr []"
  "notes' sampleOrder = JStr []" "amount sampleOrder = JNum 37800"
  "status sampleOrder = JStr ''pending''"
proof -
  have "parseIntStr (decimal 2) = JNum 2" by (rule parseIntStr_decimal)
  moreover have "decimal 2 = ''2''" by (simp add: decimal_def decimalNat.simps digitChar_def)
  ultimately have q: "parseInt (JStr ''2'') = JNum 2" by (simp add: parseInt_def)
  show "vibe sampleOrder = JStr ''elf''" "tier sampleOrder = JStr ''print''"
    "quantity sampleOrder = JNum 2" "uploadId sampleOrder = JStr ''up-1''"
    "customerPhone sampleOrder = JStr []" "shippingAddress sampleOrder = JStr []"
    "notes' sampleOrder = JStr []" "amount sampleOrder = JNum 37800"
    "status sampleOrder = JStr ''pending''"
    by (simp_all add: sampleOrder_def buildOrder_def sampleSession_def field_def getProp_def q)
qed

lemma sample_mails:
  "confirmationMail sampleOrder
     = Some \<lparr>recipient = To (JStr ''ann@example.com''), subject = OrderConfirmationSubject,
             html = [JStr ''Ann'', JStr ''Elf'', JStr ''Fine-Art Print'', JNum 2, JStr ''ord-1'',
                     JNum 37800, JStr []]\<rparr>"
  "internalMail sampleOrder
     = Some \<lparr>recipient = ADMIN_EMAIL, subject = NewOrderSubject (JStr ''ord-1''),
             html = [JStr ''Ann'', JStr ''ann@example.com'', JStr ''N/A'', JStr ''ord-1'',
                     JStr ''Elf'', JStr ''Fine-Art Print'', JNum 2, JNum 37800,
                     JStr ''up-1'', JStr ''up-1'', JStr [], JStr []]\<rparr>"
  by (simp_all add: confirmationMail_def internalMail_def sampleOrder_fields sampleOrder_id
      sampleOrder_customer getProp_def PRODUCTS_def VIBES_def jsOr_def)

theorem notification_failure_not_fatal_witness:
  "sendOrderConfirmation rejecting sampleOrder sampleStore
     = Some (sampleStore
        \<lparr>mails := [\<lparr>recipient = To (JStr ''ann@example.com''), subject = OrderConfirmationSubject,
                    html = [JStr ''Ann'', JStr ''Elf'', JStr ''Fine-Art Print'', JNum 2, JStr ''ord-1'',
                            JNum 37800, JStr []]\<rparr>],
         console := [''Email error:'']\<rparr>)
   \<and> sendInternalNotification rejecting sampleOrder sampleStore
     = Some (sampleStore
        \<lparr>mails := [\<lparr>recipient = ADMIN_EMAIL, subject = NewOrderSubject (JStr ''ord-1''),
                    html = [JStr ''Ann'', JStr ''ann@example.com'', JStr ''N/A'', JStr ''ord-1'',
                            JStr ''Elf'', JStr ''Fine-Art Print'', JNum 2, JNum 37800,
                            JStr ''up-1'', JStr ''up-1'', JStr [], JStr []]\<rparr>],
         console := [''Internal email error:'']\<rparr>)
   \<and> sendStatusUpdate rejecting (sampleOrder\<lparr>status := JStr ''shipped'', updatedAt := ''t9''\<rparr>) sampleStore
     = Some (sampleStore
        \<lparr>mails := [\<lparr>recipient = To (JStr ''ann@example.com''), subject = OrderUpdateSubject (JStr ''ord-1''),
                    html = [JStr ''Ann'', JStr ''shipped'',
                            JStr ''Your order has shipped! Check your email for tracking info.'',
                            JStr ''ord-1'']\<rparr>],
         console := [''Status email error:'']\<rparr>)
   \<and> orders (fst (updateStatus rejecting ''t9'' ''ord-1'' (JStr ''shipped'') sampleStore))
     = [sampleOrder\<lparr>status := JStr ''shipped'', updatedAt := ''t9''\<rparr>]
   \<and> snd (updateStatus rejecting ''t9'' ''ord-1'' (JStr ''shipped'') sampleStore)
     = Reply 200 (OrderJson (sampleOrder\<lparr>status := JStr ''shipped'', updatedAt := ''t9''\<rparr>))
   \<and> console (fst (updateStatus rejecting ''t9'' ''ord-1'' (JStr ''shipped'') sampleStore))
     = [''Status email error:'']"
proof -
  let ?order = "sampleOrder\<lparr>status := JStr ''shipped'', updatedAt := ''t9''\<rparr>"
  let ?m = "\<lparr>recipient = To (JStr ''ann@example.com''), subject = OrderUpdateSubject (JStr ''ord-1''),
             html = [JStr ''Ann'', JStr ''shipped'',
                     JStr ''Your order has shipped! Check your email for tracking info.'',
                     JStr ''ord-1'']\<rparr>"
  have h: "statusMail ?order = Some ?m"
    by (simp add: statusMail_def sampleOrder_id sampleOrder_customer shipped_message)
  have r: "updateStatus resolving ''t9'' ''ord-1'' (JStr ''shipped'') sampleStore =
      (sampleStore\<lparr>orders := [?order], mails := [?m]\<rparr>, Reply 200 (OrderJson ?order))"
    using updateStatus_found_string [OF sampleStore_find, of resolving "''t9''" "''shipped''"]
    by (simp add: sampleStore_orders sampleOrder_customer shipped_message resolving_def)
  have c: "console (fst (updateStatus rejecting ''t9'' ''ord-1'' (JStr ''shipped'') sampleStore))
     = [''Status email error:'']"
    using updateStatus_found_string [OF sampleStore_find, of rejecting "''t9''" "''shipped''"]
    by (simp add: sampleStore_orders rejecting_def)
  show ?thesis
    using h r c sample_mails
      notification_failure_not_fatal [where order = ?order and m = ?m and T = rejecting
        and st = sampleStore and T' = resolving and now = "''t9''" and orderId = "''ord-1''"
        and newStatus = "JStr ''shipped''"]
      notification_failure_not_fatal [where order = sampleOrder and T = rejecting and st = sampleStore
        and m = "the (confirmationMail sampleOrder)"]
      notification_failure_not_fatal [where order = sampleOrder and T = rejecting and st = sampleStore
        and m = "the (internalMail sampleOrder)"]
    by (simp add: sampleStore_orders rejecting_def)
qed

text \<open>
  Claim C4 (status update: unknown and known identifiers), as amended. When no order
  has the identifier, the reply is 404 "Order not found" and the state is unchanged.
  When some order has it and the new status is a string, the first order with the
  identifier, and no other, gets the status and the clock reading as \<open>updatedAt\<close>; one
  mail to that order's customer with the status and its message is handed to the
  transporter; the error log grows only if the transporter rejects that mail; and the
  reply is 200 with the updated order.
\<close>

theorem updateStatus_unknown_or_string:
  "((\<forall>x \<in> set (orders st). id' x \<noteq> JStr orderId) \<longrightarrow>
      updateStatus T now orderId newStatus st = (st, Reply 404 (ErrorJson ''Order not found'')))
   \<and> ((\<exists>x \<in> set (orders st). id' x = JStr orderId) \<longrightarrow>
      (\<exists>i < length (orders st).
          id' (orders st ! i) = JStr orderId
        \<and> (\<forall>j < i. id' (orders st ! j) \<noteq> JStr orderId)
        \<and> updateStatus T now orderId (JStr s) st =
            (st\<lparr>orders := (orders st)[i := (orders st ! i)\<lparr>status := JStr s, updatedAt := now\<rparr>],
                mails := mails st @
                  [\<lparr>recipient = To (customerEmail (orders st ! i)),
                    subject = OrderUpdateSubject (JStr orderId),
                    html = [customerName (orders st ! i), JStr s,
                            memberValue (getProp statusMessages (JStr s)), JStr orderId]\<rparr>],
                console := console st @
                  (if T (mails st)
                        \<lparr>recipient = To (customerEmail (orders st ! i)),
                         subject = OrderUpdateSubject (JStr orderId),
                         html = [customerName (orders st ! i), JStr s,
                                 memberValue (getProp statusMessages (JStr s)), JStr orderId]\<rparr>
                   then [] else [''Status email error:''])\<rparr>,
             Reply 200 (OrderJson ((orders st ! i)\<lparr>status := JStr s, updatedAt := now\<rparr>)))))"
proof (intro conjI impI)
  assume "\<forall>x \<in> set (orders st). id' x \<noteq> JStr orderId"
  then have "findIndex (\<lambda>x. id' x = JStr orderId) (orders st) = None"
    by (simp add: findIndex_None)
  then show "updateStatus T now orderId newStatus st = (st, Reply 404 (ErrorJson ''Order not found''))"
    by (simp add: updateStatus_def)
next
  assume "\<exists>x \<in> set (orders st). id' x = JStr orderId"
  then obtain i where f: "findIndex (\<lambda>x. id' x = JStr orderId) (orders st) = Some i"
    and i: "i < length (orders st)" "id' (orders st ! i) = JStr orderId"
      "\<forall>j<i. id' (orders st ! j) \<noteq> JStr orderId"
    by (rule findIndex_present)
  from i updateStatus_found_string [OF f, of T now s]
  show "\<exists>i < length (orders st).
          id' (orders st ! i) = JStr orderId
        \<and> (\<forall>j < i. id' (orders st ! j) \<noteq> JStr orderId)
        \<and> updateStatus T now orderId (JStr s) st =
            (st\<lparr>orders := (orders st)[i := (orders st ! i)\<lparr>status := JStr s, updatedAt := now\<rparr>],
                mails := mails st @
                  [\<lparr>recipient = To (customerEmail (orders st ! i)),
                    subject = OrderUpdateSubject (JStr orderId),
                    html = [customerName (orders st ! i), JStr s,
                            memberValue (getProp statusMessages (JStr s)), JStr orderId]\<rparr>],
                console := console st @
                  (if T (mails st)
                        \<lparr>recipient = To (customerEmail (orders st ! i)),
                         subject = OrderUpdateSubject (JStr orderId),
                         html = [customerName (orders st ! i), JStr s,
                                 memberValue (getProp statusMessages (JStr s)), JStr orderId]\<rparr>
                   then [] else [''Status email error:''])\<rparr>,
             Reply 200 (OrderJson ((orders st ! i)\<lparr>status := JStr s, updatedAt := now\<rparr>)))"
    by blast
qed

theorem updateStatus_unknown_or_string_witness:
  "map id' (orders twinStore) = [JStr ''ord-1'', JStr ''ord-1'']
   \<and> updateStatus resolving ''t9'' ''ord-2'' (JStr ''shipped'') twinStore
       = (twinStore, Reply 404 (ErrorJson ''Order not found''))
   \<and> updateStatus resolving ''t9'' ''ord-1'' (JStr ''shipped'') twinStore
       = (twinStore
            \<lparr>orders := [sampleOrder\<lparr>status := JStr ''shipped'', updatedAt := ''t9''\<rparr>,
                        sampleOrder\<lparr>customerName := JStr ''Bob''\<rparr>],
             mails := [\<lparr>recipient = To (JStr ''ann@example.com''),
                        subject = OrderUpdateSubject (JStr ''ord-1''),
                        html = [JStr ''Ann'', JStr ''shipped'',
                                JStr ''Your order has shipped! Check your email for tracking info.'',
                                JStr ''ord-1'']\<rparr>]\<rparr>,
          Reply 200 (OrderJson (sampleOrder\<lparr>status := JStr ''shipped'', updatedAt := ''t9''\<rparr>)))"
proof -
  have i: "map id' (orders twinStore) = [JStr ''ord-1'', JStr ''ord-1'']"
    by (simp add: twinStore_orders sampleOrder_id)
  have h1: "\<forall>x \<in> set (orders twinStore). id' x \<noteq> JStr ''ord-2''"
    by (simp add: twinStore_orders sampleOrder_id)
  have h2: "\<exists>x \<in> set (orders twinStore). id' x = JStr ''ord-1''"
    by (simp add: twinStore_orders sampleOrder_id)
  from updateStatus_unknown_or_string [of twinStore "''ord-1''" resolving "''t9''" _ "''shipped''"] h2
  obtain k where k: "k < length (orders twinStore)" "\<forall>j<k. id' (orders twinStore ! j) \<noteq> JStr ''ord-1''"
    and u: "updateStatus resolving ''t9'' ''ord-1'' (JStr ''shipped'') twinStore =
            (twinStore\<lparr>orders := (orders twinStore)[k := (orders twinStore ! k)\<lparr>status := JStr ''shipped'', updatedAt := ''t9''\<rparr>],
                mails := mails twinStore @
                  [\<lparr>recipient = To (customerEmail (orders twinStore ! k)),
                    subject = OrderUpdateSubject (JStr ''ord-1''),
                    html = [customerName (orders twinStore ! k), JStr ''shipped'',
                            memberValue (getProp statusMessages (JStr ''shipped'')), JStr ''ord-1'']\<rparr>],
                console := console twinStore @
                  (if resolving (mails twinStore)
                        \<lparr>recipient = To (customerEmail (orders twinStore ! k)),
                         subject = OrderUpdateSubject (JStr ''ord-1''),
                         html = [customerName (orders twinStore ! k), JStr ''shipped'',
                                 memberValue (getProp statusMessages (JStr ''shipped'')), JStr ''ord-1'']\<rparr>
                   then [] else [''Status email error:''])\<rparr>,
             Reply 200 (OrderJson ((orders twinStore ! k)\<lparr>status := JStr ''shipped'', updatedAt := ''t9''\<rparr>)))"
    by blast
  have "k = 0"
  proof (rule ccontr)
    assume "k \<noteq> 0"
    then have "0 < k" by simp
    with k(2) have "id' (orders twinStore ! 0) \<noteq> JStr ''ord-1''" by blast
    then show False by (simp add: twinStore_orders sampleOrder_id)
  qed
  with u have u0: "updateStatus resolving ''t9'' ''ord-1'' (JStr ''shipped'') twinStore
       = (twinStore
            \<lparr>orders := [sampleOrder\<lparr>status := JStr ''shipped'', updatedAt := ''t9''\<rparr>,
                        sampleOrder\<lparr>customerName := JStr ''Bob''\<rparr>],
             mails := [\<lparr>recipient = To (JStr ''ann@example.com''),
                        subject = OrderUpdateSubject (JStr ''ord-1''),
                        html = [JStr ''Ann'', JStr ''shipped'',
                                JStr ''Your order has shipped! Check your email for tracking info.'',
                                JStr ''ord-1'']\<rparr>]\<rparr>,
          Reply 200 (OrderJson (sampleOrder\<lparr>status := JStr ''shipped'', updatedAt := ''t9''\<rparr>)))"
    by (simp add: twinStore_orders sampleOrder_customer shipped_message resolving_def)
  show ?thesis
    using i u0 h1
      updateStatus_unknown_or_string [of twinStore "''ord-2''" resolving "''t9''" "JStr ''shipped''"]
    by simp
qed

text \<open>
  Claim C4 as stated fails for a status that is not a string: with \<open>null\<close> as the new
  status of an order that is present, no mail is handed to the transporter and the
  reply is 500.
\<close>

theorem updateStatus_null_counterexample:
  "map id' (orders sampleStore) = [JStr ''ord-1'']
   \<and> mails (fst (updateStatus resolving ''t9'' ''ord-1'' JNull sampleStore)) = []
   \<and> snd (updateStatus resolving ''t9'' ''ord-1'' JNull sampleStore)
       = Reply 500 (ErrorJson ''Failed to update order'')"
  using updateStatus_found_not_string [OF sampleStore_find, of JNull resolving "''t9''"]
  by (simp add: sampleStore_orders sampleOrder_id)

text \<open>
  Claim C10 (no validation of the status value), as amended. For an order that is
  present, every string, whether one of the seven labels or not, is stored verbatim as
  the status of the first order with the identifier, together with the clock reading
  as \<open>updatedAt\<close>; no other order changes and the reply is 200 with the updated order.
\<close>

theorem updateStatus_stores_any_string:
  assumes "\<exists>x \<in> set (orders st). id' x = JStr orderId"
  shows "\<exists>i < length (orders st).
           id' (orders st ! i) = JStr orderId
         \<and> (\<forall>j < i. id' (orders st ! j) \<noteq> JStr orderId)
         \<and> orders (fst (updateStatus T now orderId (JStr s) st))
             = (orders st)[i := (orders st ! i)\<lparr>status := JStr s, updatedAt := now\<rparr>]
         \<and> status (orders (fst (updateStatus T now orderId (JStr s) st)) ! i) = JStr s
         \<and> updatedAt (orders (fst (updateStatus T now orderId (JStr s) st)) ! i) = now
         \<and> snd (updateStatus T now orderId (JStr s) st)
             = Reply 200 (OrderJson ((orders st ! i)\<lparr>status := JStr s, updatedAt := now\<rparr>))"
proof -
  from assms obtain i where f: "findIndex (\<lambda>x. id' x = JStr orderId) (orders st) = Some i"
    and i: "i < length (orders st)" "id' (orders st ! i) = JStr orderId"
      "\<forall>j<i. id' (orders st ! j) \<noteq> JStr orderId"
    by (rule findIndex_present)
  have "orders (fst (updateStatus T now orderId (JStr s) st))
             = (orders st)[i := (orders st ! i)\<lparr>status := JStr s, updatedAt := now\<rparr>]
         \<and> status (orders (fst (updateStatus T now orderId (JStr s) st)) ! i) = JStr s
         \<and> updatedAt (orders (fst (updateStatus T now orderId (JStr s) st)) ! i) = now
         \<and> snd (updateStatus T now orderId (JStr s) st)
             = Reply 200 (OrderJson ((orders st ! i)\<lparr>status := JStr s, updatedAt := now\<rparr>))"
    using i(1) by (simp add: updateStatus_found_string [OF f])
  with i show ?thesis by blast
qed

theorem updateStatus_stores_any_string_witness:
  "map id' (orders twinStore) = [JStr ''ord-1'', JStr ''ord-1'']
   \<and> map_of statusMessages ''on hold'' = None
   \<and> orders (fst (updateStatus rejecting ''t9'' ''ord-1'' (JStr ''on hold'') twinStore))
       = [sampleOrder\<lparr>status := JStr ''on hold'', updatedAt := ''t9''\<rparr>,
          sampleOrder\<lparr>customerName := JStr ''Bob''\<rparr>]
   \<and> snd (updateStatus rejecting ''t9'' ''ord-1'' (JStr ''on hold'') twinStore)
       = Reply 200 (OrderJson (sampleOrder\<lparr>status := JStr ''on hold'', updatedAt := ''t9''\<rparr>))"
proof -
  have i: "map id' (orders twinStore) = [JStr ''ord-1'', JStr ''ord-1'']"
    by (simp add: twinStore_orders sampleOrder_id)
  have h: "\<exists>x \<in> set (orders twinStore). id' x = JStr ''ord-1''"
    by (simp add: twinStore_orders sampleOrder_id)
  from updateStatus_stores_any_string [OF h, of rejecting "''t9''" "''on hold''"]
  obtain k where k: "\<forall>j<k. id' (orders twinStore ! j) \<noteq> JStr ''ord-1''"
    and u: "orders (fst (updateStatus rejecting ''t9'' ''ord-1'' (JStr ''on hold'') twinStore))
             = (orders twinStore)[k := (orders twinStore ! k)\<lparr>status := JStr ''on hold'', updatedAt := ''t9''\<rparr>]"
      "snd (updateStatus rejecting ''t9'' ''ord-1'' (JStr ''on hold'') twinStore)
             = Reply 200 (OrderJson ((orders twinStore ! k)\<lparr>status := JStr ''on hold'', updatedAt := ''t9''\<rparr>))"
    by blast
  have "k = 0"
  proof (rule ccontr)
    assume "k \<noteq> 0"
    then have "0 < k" by simp
    with k have "id' (orders twinStore ! 0) \<noteq> JStr ''ord-1''" by blast
    then show False by (simp add: twinStore_orders sampleOrder_id)
  qed
  with u i show ?thesis by (simp add: twinStore_orders statusMessages_def)
qed

text \<open>
  Claim C10 as stated fails for the missing value: the request for an order that is
  present is answered with 500 "Failed to update order", not with success.
\<close>

theorem updateStatus_missing_status_counterexample:
  "map id' (orders sampleStore) = [JStr ''ord-1'']
   \<and> updateStatus resolving ''t9'' ''ord-1'' JUndefined sampleStore
       = (sampleStore\<lparr>orders := [sampleOrder\<lparr>status := JUndefined, updatedAt := ''t9''\<rparr>],
                      console := [''Order update error:'']\<rparr>,
          Reply 500 (ErrorJson ''Failed to update order''))"
  using updateStatus_found_not_string [OF sampleStore_find, of JUndefined resolving "''t9''"]
  by (simp add: sampleStore_orders sampleOrder_id)

section \<open>Checkout initiation\<close>


lemma PRODUCTS_own:
  "getProp PRODUCTS k = Own p \<Longrightarrow> p \<in> snd ` set PRODUCTS"
  by (auto simp: getProp_def Let_def split: option.splits if_splits dest!: map_of_SomeD intro: rev_image_eqI)

lemma PRODUCTS_price_pos: "getProp PRODUCTS k = Own p \<Longrightarrow> 0 < price p"
  by (drule PRODUCTS_own) (auto simp: PRODUCTS_def)

lemma VIBES_own: "getProp VIBES k = Own s \<Longrightarrow> s \<noteq> []"
  by (auto simp: getProp_def Let_def VIBES_def split: option.splits if_splits)

lemma productFound_iff: "productFound p = (p \<noteq> Absent)"
  by (cases p) simp_all

lemma vibe_truthy_iff: "truthy (memberValue (getProp VIBES k)) = (getProp VIBES k \<noteq> Absent)"
  by (cases "getProp VIBES k") (auto dest: VIBES_own)


lemma decimal_2: "decimal 2 = ''2''"
  by (simp add: decimal_def decimalNat.simps digitChar_def)

lemma PRODUCTS_print:
  "getProp PRODUCTS (JStr ''print'')
     = Own \<lparr>price = 18900, name = ''Fine-Art Print'', shippingRequired = True\<rparr>"
  by (simp add: getProp_def PRODUCTS_def)

lemma VIBES_elf: "getProp VIBES (JStr ''elf'') = Own ''Elf''"
  by (simp add: getProp_def VIBES_def)

lemma PRODUCTS_constructor:
  "getProp PRODUCTS (JStr ''constructor'') = Inherited ''constructor''"
  by (simp add: getProp_def PRODUCTS_def objectPrototypeKeys_def)

lemma sample_fields:
  "field sampleBody ''vibe'' = JStr ''elf''" "field sampleBody ''tier'' = JStr ''print''"
  "field sampleBody ''quantity'' = JNum 2" "field sampleBody ''uploadId'' = JStr ''up-1''"
  "field sampleBody ''customerName'' = JStr ''Ann''"
  "field sampleBody ''customerEmail'' = JStr ''ann@example.com''"
  "field sampleBody ''customerPhone'' = JUndefined"
  "field sampleBody ''shippingAddress'' = JUndefined"
  "field sampleBody ''notes'' = JUndefined"
  by (simp_all add: field_def getProp_def sampleBody_def objectPrototypeKeys_def)

lemma constructor_fields:
  "field constructorTierBody ''vibe'' = JStr ''elf''"
  "field constructorTierBody ''tier'' = JStr ''constructor''"
  "field constructorTierBody ''quantity'' = JNum 2"
  "field constructorTierBody ''uploadId'' = JStr ''up-1''"
  "field constructorTierBody ''customerName'' = JStr ''Ann''"
  "field constructorTierBody ''customerEmail'' = JStr ''ann@example.com''"
  "field constructorTierBody ''customerPhone'' = JUndefined"
  "field constructorTierBody ''shippingAddress'' = JUndefined"
  "field constructorTierBody ''notes'' = JUndefined"
  by (simp_all add: field_def getProp_def constructorTierBody_def objectPrototypeKeys_def)

lemma nameless_fields:
  "field namelessBody ''vibe'' = JStr ''elf''"
  "field namelessBody ''tier'' = JStr ''print''"
  "field namelessBody ''quantity'' = JNum 2"
  "field namelessBody ''uploadId'' = JStr ''up-1''"
  "field namelessBody ''customerName'' = JUndefined"
  "field namelessBody ''customerEmail'' = JStr ''ann@example.com''"
  by (simp_all add: field_def getProp_def namelessBody_def objectPrototypeKeys_def)

lemma unknownTier_fields:
  "field unknownTierBody ''vibe'' = JStr ''elf''"
  "field unknownTierBody ''tier'' = JStr ''canvas''"
  "field unknownTierBody ''quantity'' = JNum 2"
  "field unknownTierBody ''uploadId'' = JStr ''up-1''"
  "field unknownTierBody ''customerName'' = JStr ''Ann''"
  "field unknownTierBody ''customerEmail'' = JStr ''ann@example.com''"
  by (simp_all add: field_def getProp_def unknownTierBody_def objectPrototypeKeys_def)

lemma negative_fields:
  "field negativeQuantityBody ''vibe'' = JStr ''elf''"
  "field negativeQuantityBody ''tier'' = JStr ''print''"
  "field negativeQuantityBody ''quantity'' = JNum (- 1)"
  "field negativeQuantityBody ''uploadId'' = JStr ''up-1''"
  "field negativeQuantityBody ''customerName'' = JStr ''Ann''"
  "field negativeQuantityBody ''customerEmail'' = JStr ''ann@example.com''"
  "field negativeQuantityBody ''customerPhone'' = JUndefined"
  "field negativeQuantityBody ''shippingAddress'' = JUndefined"
  "field negativeQuantityBody ''notes'' = JUndefined"
  by (simp_all add: field_def getProp_def negativeQuantityBody_def objectPrototypeKeys_def)

lemma sample_params:
  "checkoutParams ''ord-1'' sampleBody =
     Some \<lparr>product_label = (JStr ''Elf'', JStr ''Fine-Art Print''),
           unit_amount = JNum 18900, line_quantity = JNum 2,
           param_customer_email = JStr ''ann@example.com'',
           param_metadata = metadata sampleSession\<rparr>"
  by (simp add: checkoutParams_def sample_fields PRODUCTS_print VIBES_elf decimal_2 jsOr_def
      sampleSession_def)

lemma sample_checkout:
  "createCheckout sampleStripe ''ord-1'' sampleBody emptyState =
     (emptyState\<lparr>sessionRequests := [the (checkoutParams ''ord-1'' sampleBody)]\<rparr>,
      Reply 200 (SessionJson (JStr ''cs_test_1'') (JStr ''https://pay.example/cs_test_1'')))"
  by (simp add: createCheckout_def sample_fields PRODUCTS_print VIBES_elf sample_params
      sampleStripe_def emptyState_def)

lemma createCheckout_200:
  assumes "createCheckout S uuid body st = (st', Reply 200 (SessionJson sid url))"
  obtains params where "checkoutParams uuid body = Some params"
    and "st' = st\<lparr>sessionRequests := sessionRequests st @ [params]\<rparr>"
    and "sessions_create S params = Some (sid, url)"
  using assms
  by (auto simp: createCheckout_def checkoutFailed_def Let_def split: if_splits option.splits)

lemma checkoutParams_Some:
  assumes "checkoutParams uuid body = Some params"
  shows "param_customer_email params = field body ''customerEmail''"
    and "\<exists>quantityString. toStringMethod (field body ''quantity'') = Some quantityString \<and>
         param_metadata params =
           [(''orderId'', JStr uuid),
            (''vibe'', field body ''vibe''),
            (''tier'', field body ''tier''),
            (''quantity'', JStr quantityString),
            (''uploadId'', field body ''uploadId''),
            (''customerName'', field body ''customerName''),
            (''customerPhone'', jsOr (field body ''customerPhone'') (JStr [])),
            (''shippingAddress'', jsOr (field body ''shippingAddress'') (JStr [])),
            (''notes'', jsOr (field body ''notes'') (JStr []))]"
    and "unit_amount params = priceOf (getProp PRODUCTS (field body ''tier''))"
    and "line_quantity params = field body ''quantity''"
  using assms by (auto simp: checkoutParams_def Let_def split: option.splits)

text \<open>
  The part of the catalog contract that does hold: the three tiers and the three themes
  are found, with their prices and names, and a code that is neither one of them nor
  the name of an inherited member is not found.
\<close>

lemma catalog_own_keys:
  "getProp PRODUCTS (JStr ''digital'') = Own \<lparr>price = 7900, name = ''Digital Only'', shippingRequired = False\<rparr>"
  "getProp PRODUCTS (JStr ''print'') = Own \<lparr>price = 18900, name = ''Fine-Art Print'', shippingRequired = True\<rparr>"
  "getProp PRODUCTS (JStr ''framed'') = Own \<lparr>price = 39900, name = ''Framed Edition'', shippingRequired = True\<rparr>"
  "getProp VIBES (JStr ''homeAlone'') = Own ''Home Alone''"
  "getProp VIBES (JStr ''elf'') = Own ''Elf''"
  "getProp VIBES (JStr ''vacation'') = Own ''Christmas Vacation''"
  by (simp_all add: getProp_def PRODUCTS_def VIBES_def)

lemma catalog_other_keys:
  assumes "k \<notin> set objectPrototypeKeys"
  shows "k \<notin> {''digital'', ''print'', ''framed''} \<Longrightarrow> getProp PRODUCTS (JStr k) = Absent"
    and "k \<notin> {''homeAlone'', ''elf'', ''vacation''} \<Longrightarrow> getProp VIBES (JStr k) = Absent"
  using assms by (simp_all add: getProp_def PRODUCTS_def VIBES_def)

text \<open>
  Claim C6 (catalog lookups fail outside the fixed domain) does not hold of the code:
  every name of a member inherited from \<open>Object.prototype\<close> lies outside the three
  tiers and the three themes, yet looking it up in \<open>PRODUCTS\<close> or \<open>VIBES\<close> yields a
  truthy value, so the guards \<open>!PRODUCTS[tier]\<close> and \<open>!VIBES[vibe]\<close> let it pass, and
  the price read from it is \<open>undefined\<close>. The example after it is the tier
  \<open>constructor\<close>.
\<close>

theorem inherited_key_passes_guard:
  assumes "k \<in> set objectPrototypeKeys"
  shows "k \<notin> {''digital'', ''print'', ''framed''} \<and> k \<notin> {''homeAlone'', ''elf'', ''vacation''}
       \<and> getProp PRODUCTS (JStr k) = Inherited k
       \<and> productFound (getProp PRODUCTS (JStr k))
       \<and> priceOf (getProp PRODUCTS (JStr k)) = JUndefined
       \<and> getProp VIBES (JStr k) = Inherited k
       \<and> truthy (memberValue (getProp VIBES (JStr k)))"
proof -
  from assms have p: "map_of PRODUCTS k = None" and v: "map_of VIBES k = None"
    by (auto simp: objectPrototypeKeys_def PRODUCTS_def VIBES_def)
  from assms have n: "k \<notin> {''digital'', ''print'', ''framed''}"
    "k \<notin> {''homeAlone'', ''elf'', ''vacation''}"
    by (auto simp: objectPrototypeKeys_def)
  show ?thesis using assms p v n by (simp add: getProp_def)
qed

theorem inherited_key_passes_guard_witness:
  "''constructor'' \<in> set objectPrototypeKeys
   \<and> field constructorTierBody ''tier'' = JStr ''constructor''
   \<and> productFound (getProp PRODUCTS (JStr ''constructor''))
   \<and> priceOf (getProp PRODUCTS (JStr ''constructor'')) = JUndefined
   \<and> map unit_amount
       (sessionRequests (fst (createCheckout refusingStripe ''ord-1'' constructorTierBody emptyState)))
       = [JUndefined]
   \<and> snd (createCheckout refusingStripe ''ord-1'' constructorTierBody emptyState)
       = Reply 500 (ErrorJson ''Failed to create checkout session'')"
proof -
  have h: "''constructor'' \<in> set objectPrototypeKeys"
    by (simp add: objectPrototypeKeys_def)
  have c: "createCheckout refusingStripe ''ord-1'' constructorTierBody emptyState =
     (emptyState\<lparr>sessionRequests := [the (checkoutParams ''ord-1'' constructorTierBody)],
                 console := [''Checkout error:'']\<rparr>,
      Reply 500 (ErrorJson ''Failed to create checkout session''))"
    by (simp add: createCheckout_def constructor_fields PRODUCTS_constructor VIBES_elf
        checkoutParams_def decimal_2 memberName_def checkoutFailed_def
        refusingStripe_def sampleStripe_def emptyState_def)
  have u: "unit_amount (the (checkoutParams ''ord-1'' constructorTierBody)) = JUndefined"
    by (simp add: checkoutParams_def constructor_fields PRODUCTS_constructor memberName_def decimal_2)
  show ?thesis
    using h inherited_key_passes_guard [OF h]
    by (simp add: constructor_fields c u)
qed

text \<open>
  Claim C7 (checkout validation), as amended. When one of \<open>vibe\<close>, \<open>tier\<close>,
  \<open>quantity\<close>, \<open>uploadId\<close>, \<open>customerName\<close>, \<open>customerEmail\<close> is missing or falsy, the
  reply is 400 "Missing required fields", whichever entry it is; otherwise, when the
  tier names no property of the catalog object the reply is 400 "Invalid tier", and
  when the theme names none it is 400 "Invalid vibe". In each case the state is
  unchanged, so no session request is made. The quantity is tested for truthiness
  only.
\<close>

theorem createCheckout_validation:
  assumes "\<not> truthy (field body ''vibe'') \<or> \<not> truthy (field body ''tier'')
      \<or> \<not> truthy (field body ''quantity'') \<or> \<not> truthy (field body ''uploadId'')
      \<or> \<not> truthy (field body ''customerName'') \<or> \<not> truthy (field body ''customerEmail'')
      \<or> getProp PRODUCTS (field body ''tier'') = Absent
      \<or> getProp VIBES (field body ''vibe'') = Absent"
  shows "createCheckout S uuid body st =
     (st, Reply 400 (ErrorJson
        (if \<not> truthy (field body ''vibe'') \<or> \<not> truthy (field body ''tier'')
            \<or> \<not> truthy (field body ''quantity'') \<or> \<not> truthy (field body ''uploadId'')
            \<or> \<not> truthy (field body ''customerName'') \<or> \<not> truthy (field body ''customerEmail'')
         then ''Missing required fields''
         else if getProp PRODUCTS (field body ''tier'') = Absent then ''Invalid tier''
         else ''Invalid vibe'')))"
  using assms
  by (auto simp: createCheckout_def productFound_iff vibe_truthy_iff)

theorem createCheckout_validation_witness:
  "\<not> truthy (field namelessBody ''customerName'')
   \<and> createCheckout sampleStripe ''ord-1'' namelessBody emptyState
       = (emptyState, Reply 400 (ErrorJson ''Missing required fields''))
   \<and> getProp PRODUCTS (field unknownTierBody ''tier'') = Absent
   \<and> createCheckout sampleStripe ''ord-1'' unknownTierBody emptyState
       = (emptyState, Reply 400 (ErrorJson ''Invalid tier''))"
proof -
  have h1: "\<not> truthy (field namelessBody ''customerName'')" by (simp add: nameless_fields)
  have h2: "getProp PRODUCTS (field unknownTierBody ''tier'') = Absent"
    by (simp add: unknownTier_fields getProp_def PRODUCTS_def objectPrototypeKeys_def)
  show ?thesis
    using h1 h2
      createCheckout_validation [of namelessBody sampleStripe "''ord-1''" emptyState]
      createCheckout_validation [of unknownTierBody sampleStripe "''ord-1''" emptyState]
    by (simp add: unknownTier_fields)
qed

text \<open>
  Claim C7 as stated fails for a quantity that is not a positive integer: with
  quantity \<open>-1\<close> the request passes validation and a session request carrying that
  quantity is made; the reply is 200 when the processor accepts it and 500 when it
  refuses, never a validation error.
\<close>

theorem negative_quantity_counterexample:
  "field negativeQuantityBody ''quantity'' = JNum (- 1)
   \<and> map line_quantity
       (sessionRequests (fst (createCheckout sampleStripe ''ord-1'' negativeQuantityBody emptyState)))
       = [JNum (- 1)]
   \<and> snd (createCheckout sampleStripe ''ord-1'' negativeQuantityBody emptyState)
       = Reply 200 (SessionJson (JStr ''cs_test_1'') (JStr ''https://pay.example/cs_test_1''))
   \<and> snd (createCheckout refusingStripe ''ord-1'' negativeQuantityBody emptyState)
       = Reply 500 (ErrorJson ''Failed to create checkout session'')"
proof -
  have d: "decimal (- 1) = ''-1''"
    by (simp add: decimal_def decimalNat.simps digitChar_def)
  have p: "\<exists>params. checkoutParams ''ord-1'' negativeQuantityBody = Some params
      \<and> line_quantity params = JNum (- 1)"
    by (simp add: checkoutParams_def negative_fields PRODUCTS_print)
  then obtain params where p': "checkoutParams ''ord-1'' negativeQuantityBody = Some params"
    "line_quantity params = JNum (- 1)" by blast
  have a: "createCheckout sampleStripe ''ord-1'' negativeQuantityBody emptyState =
     (emptyState\<lparr>sessionRequests := [params]\<rparr>,
      Reply 200 (SessionJson (JStr ''cs_test_1'') (JStr ''https://pay.example/cs_test_1'')))"
    by (simp add: createCheckout_def negative_fields PRODUCTS_print VIBES_elf p'
        sampleStripe_def emptyState_def)
  have b: "snd (createCheckout refusingStripe ''ord-1'' negativeQuantityBody emptyState)
       = Reply 500 (ErrorJson ''Failed to create checkout session'')"
    by (simp add: createCheckout_def negative_fields PRODUCTS_print VIBES_elf p'
        refusingStripe_def sampleStripe_def checkoutFailed_def)
  show ?thesis by (simp add: negative_fields a b p')
qed




text \<open>
  Claim C5 (amount computation and the materialized amount) does not hold of the code.
  Initiation does its part: for a tier of the catalog and a positive quantity the
  handler computes \<open>totalAmount = price * quantity\<close> (exactly, as long as the product is
  a safe integer) and asks the processor for \<open>quantity\<close> items at
  \<open>unit_amount = price\<close>. But no order carrying that amount is ever materialized:
  whatever request is then delivered to the webhook route, the order collection stays
  as initiation left it and the reply is not the acknowledgement. The example after it
  is tier \<open>print\<close> with quantity 2: the amount is 37800, and after the authentically
  signed completed event for the session the store holds no order.
\<close>

theorem initiated_amount_never_materialized:
  assumes "createCheckout S uuid body st = (st', Reply 200 (SessionJson sid url))"
    and "getProp PRODUCTS (field body ''tier'') = Own p"
    and "field body ''quantity'' = JNum q" and "0 < q"
  shows "(\<exists>params. sessionRequests st' = sessionRequests st @ [params]
            \<and> unit_amount params = JNum (price p) \<and> line_quantity params = JNum q)
       \<and> orders st' = orders st
       \<and> (price p * q \<le> maxSafe \<longrightarrow> totalAmount body = Some (JNum (price p * q)))
       \<and> orders (fst (webhookRoute J S T t1 t2 req st')) = orders st'
       \<and> snd (webhookRoute J S T t1 t2 req st') \<noteq> Reply 200 Received"
proof -
  from assms(1) obtain params where p: "checkoutParams uuid body = Some params"
    and st': "st' = st\<lparr>sessionRequests := sessionRequests st @ [params]\<rparr>"
    by (rule createCheckout_200)
  have u: "unit_amount params = JNum (price p)" "line_quantity params = JNum q"
    using checkoutParams_Some(3,4) [OF p] assms(2,3) by simp_all
  from PRODUCTS_price_pos [OF assms(2)] assms(4) have "0 \<le> price p * q" by simp
  then have t: "price p * q \<le> maxSafe \<longrightarrow> totalAmount body = Some (JNum (price p * q))"
    using assms(2,3) by (simp add: totalAmount_def)
  from webhookRoute_effect [of J S T t1 t2 req st']
  have w: "orders (fst (webhookRoute J S T t1 t2 req st')) = orders st'"
    "snd (webhookRoute J S T t1 t2 req st') \<noteq> Reply 200 Received"
    by auto
  show ?thesis using st' u t w by simp
qed

theorem initiated_amount_never_materialized_witness:
  "createCheckout sampleStripe ''ord-1'' sampleBody emptyState =
     (emptyState\<lparr>sessionRequests := [the (checkoutParams ''ord-1'' sampleBody)]\<rparr>,
      Reply 200 (SessionJson (JStr ''cs_test_1'') (JStr ''https://pay.example/cs_test_1'')))
   \<and> getProp PRODUCTS (field sampleBody ''tier'')
     = Own \<lparr>price = 18900, name = ''Fine-Art Print'', shippingRequired = True\<rparr>
   \<and> field sampleBody ''quantity'' = JNum 2
   \<and> unit_amount (the (checkoutParams ''ord-1'' sampleBody)) = JNum 18900
   \<and> line_quantity (the (checkoutParams ''ord-1'' sampleBody)) = JNum 2
   \<and> totalAmount sampleBody = Some (JNum 37800)
   \<and> verifyRaw sampleStripe (rawBody completedRequest) (stripeSignature completedRequest)
     = Inr completedEvent
   \<and> amount_total (data_object completedEvent) = JNum 37800
   \<and> orders (fst (webhookRoute sampleReader sampleStripe resolving ''t1'' ''t2'' completedRequest
        (emptyState\<lparr>sessionRequests := [the (checkoutParams ''ord-1'' sampleBody)]\<rparr>))) = []"
proof -
  let ?p = "\<lparr>price = 18900, name = ''Fine-Art Print'', shippingRequired = True\<rparr>"
  let ?st' = "emptyState\<lparr>sessionRequests := [the (checkoutParams ''ord-1'' sampleBody)]\<rparr>"
  have h1: "createCheckout sampleStripe ''ord-1'' sampleBody emptyState =
     (?st', Reply 200 (SessionJson (JStr ''cs_test_1'') (JStr ''https://pay.example/cs_test_1'')))"
    by (rule sample_checkout)
  have h2: "getProp PRODUCTS (field sampleBody ''tier'') = Own ?p"
    by (simp add: sample_fields PRODUCTS_print)
  have h3: "field sampleBody ''quantity'' = JNum 2" by (rule sample_fields)
  have h4: "(0::int) < 2" by simp
  have v: "verifyRaw sampleStripe (rawBody completedRequest) (stripeSignature completedRequest)
     = Inr completedEvent" "amount_total (data_object completedEvent) = JNum 37800"
    by (simp_all add: sampleStripe_def completedRequest_def completedEvent_def sampleSession_def)
  have e: "orders ?st' = []" "orders emptyState = []" "sessionRequests emptyState = []"
    by (simp_all add: emptyState_def)
  have m: "(18900::int) * 2 \<le> maxSafe" by (simp add: maxSafe_def)
  show ?thesis
    using h1 h2 h3 v m
      initiated_amount_never_materialized [OF h1 h2 h3 h4, of sampleReader resolving "''t1''" "''t2''"
        completedRequest]
    by (simp add: e sample_params)
qed

end
